theory Spec2Isabelle
  imports Complex_Main
begin

section \<open>Values, strings and observable events\<close>

text \<open>
  The action is a single file, \<^verbatim>\<open>src/index.js\<close>. Its effects are calls of the
  Actions toolkit (\<^verbatim>\<open>core.setFailed\<close>, \<^verbatim>\<open>core.setOutput\<close>, \<^verbatim>\<open>core.notice\<close>,
  \<^verbatim>\<open>core.info\<close>), of \<^verbatim>\<open>console.log\<close>, of the HTTP client and of the timers. Each of
  them is recorded, in program order, as an event of a trace.
\<close>

datatype js_value = JStr string | JNum int

datatype event =
    SetInterval int
  | ClearInterval
  | NetlifyGet string
  | AxiosGet string
  | Sleep int
  | ConsoleLog string
  | Notice string
  | Info string
  | SetOutput string js_value
  | SetFailed string
  | UnhandledRejection

text \<open>Decimal rendering of an integer, as a template literal renders a number.\<close>

fun string_of_nat :: "nat \<Rightarrow> string" where
  "string_of_nat n =
     (if n < 10 then [char_of (48 + n)]
      else string_of_nat (n div 10) @ [char_of (48 + n mod 10)])"

declare string_of_nat.simps [simp del]

definition string_of_int :: "int \<Rightarrow> string" where
  "string_of_int i = (if i < 0 then CHR ''-'' # string_of_nat (nat (- i)) else string_of_nat (nat i))"

text \<open>A template literal renders an absent (\<^verbatim>\<open>undefined\<close>) string as the word undefined.\<close>

definition template :: "string option \<Rightarrow> string" where
  "template v = (case v of None \<Rightarrow> ''undefined'' | Some s \<Rightarrow> s)"

section \<open>Deployment records and the authenticated fetch\<close>

text \<open>
  The fields of a deployment record that the action reads. \<^verbatim>\<open>id\<close> is written
  \<open>deploy_id\<close>. \<open>commit_ref\<close> is \<open>None\<close> for a deployment without a commit, and
  \<open>error_message\<close> is \<open>None\<close> when the platform reports none.
\<close>

record deployment =
  deploy_id :: string
  name :: string
  commit_ref :: "string option"
  state :: string
  error_message :: "string option"
  deploy_ssl_url :: string

text \<open>
  What \<^verbatim>\<open>await getNetlifyUrl(url)\<close> yields: the request is rejected (\<open>Failed\<close>), or it
  resolves with a response whose \<^verbatim>\<open>data\<close> is given. For the listing endpoint the data
  is \<open>None\<close> when it is falsy and \<open>Some ds\<close> when it is the array \<open>ds\<close>; for the
  single-deployment endpoint it is \<open>None\<close> when it is null or undefined. The n-th
  request of an endpoint is answered by the n-th entry of a sequence given by the
  environment.
\<close>

datatype 'a fetched = Failed | Response 'a

type_synonym listing_endpoint = "nat \<Rightarrow> deployment list option fetched"
type_synonym deploy_endpoint = "nat \<Rightarrow> deployment option fetched"

section \<open>Promises and poll sessions\<close>

text \<open>A promise settles once: \<open>resolve\<close> and \<open>reject\<close> on a settled promise do nothing.\<close>

datatype 'a promise = Pending | Fulfilled 'a | Rejected string

fun resolve :: "'a \<Rightarrow> 'a promise \<Rightarrow> 'a promise" where
  "resolve v Pending = Fulfilled v"
| "resolve v p = p"

fun reject :: "string \<Rightarrow> 'a promise \<Rightarrow> 'a promise" where
  "reject m Pending = Rejected m"
| "reject m p = p"

text \<open>
  The state of one waiter: the counter \<^verbatim>\<open>elapsedTimeSeconds\<close>, whether the interval
  timer \<^verbatim>\<open>handle\<close> is still armed, the wrapping promise, the variable \<^verbatim>\<open>state\<close> of the
  readiness waiter (\<open>None\<close> is \<^verbatim>\<open>undefined\<close>; the creation waiter leaves it alone), the
  number of requests issued so far, and the events produced so far.
\<close>

record 'a session =
  elapsedTimeSeconds :: int
  armed :: bool
  settled :: "'a promise"
  state_var :: "string option"
  fetches :: nat
  log :: "event list"

definition start :: "int \<Rightarrow> 'a session" where
  "start increment =
     \<lparr>elapsedTimeSeconds = 0, armed = True, settled = Pending, state_var = None,
      fetches = 0, log = [SetInterval (increment * 1000)]\<rparr>"

definition emit :: "event \<Rightarrow> 'a session \<Rightarrow> 'a session" where
  "emit e s = s\<lparr>log := log s @ [e]\<rparr>"

definition clearInterval :: "'a session \<Rightarrow> 'a session" where
  "clearInterval s = emit ClearInterval (s\<lparr>armed := False\<rparr>)"

section \<open>The creation waiter\<close>

definition creation_timeout_message :: "int \<Rightarrow> string" where
  "creation_timeout_message MAX_TIMEOUT =
     ''Timeout reached: Deployment was not created within '' @ string_of_int MAX_TIMEOUT
       @ '' seconds.''"

text \<open>
  One run of the interval callback of \<^verbatim>\<open>waitForDeployCreation\<close>. The request of a tick
  is taken to be answered before the next tick fires. A rejected request makes the
  callback's own promise reject, which nothing handles: the tick ends there, the timer
  stays armed and the wrapping promise is untouched (the runtime is taken to report an
  unhandled rejection and go on).
\<close>

definition creation_tick ::
  "listing_endpoint \<Rightarrow> string \<Rightarrow> string \<Rightarrow> int \<Rightarrow> deployment session \<Rightarrow> deployment session" where
  "creation_tick net url commitSha MAX_TIMEOUT s =
     (let s1 = s\<lparr>elapsedTimeSeconds := elapsedTimeSeconds s + 15\<rparr> in
      if elapsedTimeSeconds s1 \<ge> MAX_TIMEOUT then
        (let s2 = clearInterval s1
         in s2\<lparr>settled := reject (creation_timeout_message MAX_TIMEOUT) (settled s2)\<rparr>)
      else
        (let s2 = emit (NetlifyGet url) (s1\<lparr>fetches := fetches s1 + 1\<rparr>) in
         case net (fetches s1) of
           Failed \<Rightarrow> emit UnhandledRejection s2
         | Response None \<Rightarrow>
             s2\<lparr>settled := reject ''Failed to get deployments for site'' (settled s2)\<rparr>
         | Response (Some netlifyDeployments) \<Rightarrow>
             (case find (\<lambda>d. commit_ref d = Some commitSha) netlifyDeployments of
                Some commitDeployment \<Rightarrow>
                  (let s3 = clearInterval s2
                   in s3\<lparr>settled := resolve commitDeployment (settled s3)\<rparr>)
              | None \<Rightarrow> emit (ConsoleLog ''Not yet created, waiting 15 more seconds...'') s2)))"

text \<open>
  The timer fires while it is armed. With \<open>until_settled\<close> the ticks are followed up to
  the moment the wrapping promise settles, which is when the caller's \<^verbatim>\<open>await\<close>
  returns; without it they are followed for as long as the timer stays armed.
\<close>

function creation_poll ::
  "bool \<Rightarrow> listing_endpoint \<Rightarrow> string \<Rightarrow> string \<Rightarrow> int \<Rightarrow> deployment session \<Rightarrow> deployment session" where
  "creation_poll until_settled net url commitSha MAX_TIMEOUT s =
     (if armed s \<and> (if until_settled then settled s = Pending else True)
      then creation_poll until_settled net url commitSha MAX_TIMEOUT
             (creation_tick net url commitSha MAX_TIMEOUT s)
      else s)"
  by pat_completeness auto
termination
  by (relation "measure (\<lambda>(b, net, url, c, m, s).
        if armed s then nat (m - elapsedTimeSeconds s) + 1 else 0)")
     (auto simp: creation_tick_def clearInterval_def emit_def Let_def
           split: fetched.splits option.splits)

declare creation_poll.simps [simp del]

definition waitForDeployCreation ::
  "listing_endpoint \<Rightarrow> string \<Rightarrow> string \<Rightarrow> int \<Rightarrow> deployment session" where
  "waitForDeployCreation net url commitSha MAX_TIMEOUT =
     creation_poll True net url commitSha MAX_TIMEOUT (start 15)"

definition creation_timer_lifetime ::
  "listing_endpoint \<Rightarrow> string \<Rightarrow> string \<Rightarrow> int \<Rightarrow> deployment session" where
  "creation_timer_lifetime net url commitSha MAX_TIMEOUT =
     creation_poll False net url commitSha MAX_TIMEOUT (start 15)"

section \<open>The readiness waiter\<close>

definition READY_STATES :: "string list" where
  "READY_STATES = [''ready'', ''current'', ''error'']"

definition readiness_timeout_message :: "int \<Rightarrow> string option \<Rightarrow> string" where
  "readiness_timeout_message MAX_TIMEOUT st =
     ''Timeout reached: Deployment was not ready within '' @ string_of_int MAX_TIMEOUT
       @ '' seconds. Last known deployment state: '' @ template st @ ''.''"

text \<open>
  One run of the interval callback of \<^verbatim>\<open>waitForReadiness\<close>. Reading \<^verbatim>\<open>deploy.state\<close>
  of absent data raises a TypeError inside the callback, which ends the tick like a
  rejected request does.
\<close>

definition readiness_tick ::
  "deploy_endpoint \<Rightarrow> string \<Rightarrow> int \<Rightarrow> unit session \<Rightarrow> unit session" where
  "readiness_tick net url MAX_TIMEOUT s =
     (let s1 = s\<lparr>elapsedTimeSeconds := elapsedTimeSeconds s + 30\<rparr> in
      if elapsedTimeSeconds s1 \<ge> MAX_TIMEOUT then
        (let s2 = clearInterval s1
         in s2\<lparr>settled := reject (readiness_timeout_message MAX_TIMEOUT (state_var s2)) (settled s2)\<rparr>)
      else
        (let s2 = emit (NetlifyGet url) (s1\<lparr>fetches := fetches s1 + 1\<rparr>) in
         case net (fetches s1) of
           Failed \<Rightarrow> emit UnhandledRejection s2
         | Response None \<Rightarrow> emit UnhandledRejection s2
         | Response (Some deploy) \<Rightarrow>
             (let s3 = s2\<lparr>state_var := Some (state deploy)\<rparr> in
              if state deploy \<in> set READY_STATES then
                (let s4 = clearInterval s3 in s4\<lparr>settled := resolve () (settled s4)\<rparr>)
              else emit (ConsoleLog ''Not yet ready, waiting 30 more seconds...'') s3)))"

function readiness_poll ::
  "bool \<Rightarrow> deploy_endpoint \<Rightarrow> string \<Rightarrow> int \<Rightarrow> unit session \<Rightarrow> unit session" where
  "readiness_poll until_settled net url MAX_TIMEOUT s =
     (if armed s \<and> (if until_settled then settled s = Pending else True)
      then readiness_poll until_settled net url MAX_TIMEOUT (readiness_tick net url MAX_TIMEOUT s)
      else s)"
  by pat_completeness auto
termination
  by (relation "measure (\<lambda>(b, net, url, m, s).
        if armed s then nat (m - elapsedTimeSeconds s) + 1 else 0)")
     (auto simp: readiness_tick_def clearInterval_def emit_def Let_def
           split: fetched.splits option.splits)

declare readiness_poll.simps [simp del]

definition waitForReadiness :: "deploy_endpoint \<Rightarrow> string \<Rightarrow> int \<Rightarrow> unit session" where
  "waitForReadiness net url MAX_TIMEOUT = readiness_poll True net url MAX_TIMEOUT (start 30)"

definition readiness_timer_lifetime :: "deploy_endpoint \<Rightarrow> string \<Rightarrow> int \<Rightarrow> unit session" where
  "readiness_timer_lifetime net url MAX_TIMEOUT =
     readiness_poll False net url MAX_TIMEOUT (start 30)"

section \<open>The reachability prober\<close>

text \<open>
  What the HTTP client makes of a plain request, before any interceptor: it resolves
  with a response, or it rejects with an error. The client's error carries the response
  when one was received (a status outside the accepted range) and none when the request
  got no response at all (\<^verbatim>\<open>error.response\<close> is then undefined). \<open>TypeError\<close> is the
  error raised by reading a property of undefined.
\<close>

datatype response = HttpResponse (status: int)

datatype axios_error = AxiosError "response option" | TypeError

datatype axios_result = Resolves response | Rejects axios_error

text \<open>
  The two handlers that \<^verbatim>\<open>waitForUrl\<close> registers with
  \<^verbatim>\<open>axios.interceptors.response.use\<close>. In the second, \<^verbatim>\<open>error.response.status\<close> raises
  a TypeError when the error has no response; a handler that throws rejects with what it
  threw.
\<close>

definition onFulfilled :: "response \<Rightarrow> axios_result" where
  "onFulfilled r = Resolves r"

fun onRejected :: "axios_error \<Rightarrow> axios_result" where
  "onRejected (AxiosError (Some r)) =
     (if status r = 401 then Resolves r else Rejects (AxiosError (Some r)))"
| "onRejected (AxiosError None) = Rejects TypeError"
| "onRejected TypeError = Rejects TypeError"

fun interceptor :: "axios_result \<Rightarrow> axios_result" where
  "interceptor (Resolves r) = onFulfilled r"
| "interceptor (Rejects e) = onRejected e"

text \<open>
  The n-th plain request of the run, to a given URL, is answered by the environment.
  The state threaded through the orchestrator: the trace, the number of plain requests
  issued, and the number of interceptors registered on the shared client (every call of
  \<^verbatim>\<open>waitForUrl\<close> registers one more; they run in order of registration).
\<close>

type_synonym site = "nat \<Rightarrow> string \<Rightarrow> axios_result"

record io =
  trace :: "event list"
  requests :: nat
  interceptors :: nat

definition say :: "event \<Rightarrow> io \<Rightarrow> io" where
  "say e s = s\<lparr>trace := trace s @ [e]\<rparr>"

definition axios_get :: "site \<Rightarrow> string \<Rightarrow> io \<Rightarrow> axios_result \<times> io" where
  "axios_get web url s =
     ((interceptor ^^ interceptors s) (web (requests s) url),
      say (AxiosGet url) (s\<lparr>requests := requests s + 1\<rparr>))"

text \<open>An async function returns normally or rejects with a value.\<close>

datatype js_error = Str string | Error string

datatype outcome = Returned | Throws js_error

function waitForUrl_loop ::
  "site \<Rightarrow> string \<Rightarrow> rat \<Rightarrow> bool \<Rightarrow> nat \<Rightarrow> io \<Rightarrow> outcome \<times> io" where
  "waitForUrl_loop web url iterations flag i s =
     (if of_nat i < iterations then
        (let got = axios_get web url s in
         case fst got of
           Resolves r \<Rightarrow> (Returned, snd got)
         | Rejects e \<Rightarrow>
             if flag then (Throws (Str ''not found''), snd got)
             else waitForUrl_loop web url iterations flag (i + 1)
                    (say (Sleep 3000)
                      (say (ConsoleLog (''URL '' @ url @ '' unavailable, retrying...''))
                        (snd got))))
      else (Returned, say (SetFailed (''Timeout reached: Unable to connect to '' @ url)) s))"
  by pat_completeness auto
termination
proof (relation "measure (\<lambda>(web, url, iterations, flag, i, s). nat \<lceil>iterations\<rceil> - i)")
  show "wf (measure (\<lambda>(web, url, iterations, flag, i, s). nat \<lceil>iterations\<rceil> - i))"
    by simp
next
  fix web :: site and url :: string and iterations :: rat and flag :: bool
    and i :: nat and s :: io and got :: "axios_result \<times> io"
  assume "of_nat i < iterations"
  then have "of_int (int i) < iterations" by simp
  then have "int i < \<lceil>iterations\<rceil>" by (simp only: less_ceiling_iff)
  then have "i < nat \<lceil>iterations\<rceil>" by linarith
  then show "((web, url, iterations, flag, i + 1,
                say (Sleep 3000)
                  (say (ConsoleLog (''URL '' @ url @ '' unavailable, retrying...''))
                    (snd got))),
               (web, url, iterations, flag, i, s))
             \<in> measure (\<lambda>(web, url, iterations, flag, i, s). nat \<lceil>iterations\<rceil> - i)"
    by simp
qed

declare waitForUrl_loop.simps [simp del]

definition waitForUrl :: "site \<Rightarrow> string \<Rightarrow> int \<Rightarrow> bool \<Rightarrow> io \<Rightarrow> outcome \<times> io" where
  "waitForUrl web url MAX_TIMEOUT flag s =
     (let s1 = s\<lparr>interceptors := interceptors s + 1\<rparr>;
          iterations = of_int MAX_TIMEOUT / 3
      in waitForUrl_loop web url iterations flag 0 s1)"

section \<open>The orchestrator\<close>

text \<open>
  The regular expression \<^verbatim>\<open>/canceled build due to no content change/i\<close>: the phrase
  occurs somewhere in the text, letters compared without regard to case. \<^verbatim>\<open>test\<close>
  renders its argument as a string first.
\<close>

definition lower :: "char \<Rightarrow> char" where
  "lower c = (let n = (of_char c :: nat) in if 65 \<le> n \<and> n \<le> 90 then char_of (n + 32) else c)"

fun starts_with :: "string \<Rightarrow> string \<Rightarrow> bool" where
  "starts_with [] text = True"
| "starts_with (p # ps) [] = False"
| "starts_with (p # ps) (c # cs) = (lower p = lower c \<and> starts_with ps cs)"

fun occurs_in :: "string \<Rightarrow> string \<Rightarrow> bool" where
  "occurs_in phrase [] = starts_with phrase []"
| "occurs_in phrase (c # cs) = (starts_with phrase (c # cs) \<or> occurs_in phrase cs)"

definition matcher_test :: "string option \<Rightarrow> bool" where
  "matcher_test v = occurs_in ''canceled build due to no content change'' (template v)"

text \<open>
  The inputs of a run: the environment variable \<^verbatim>\<open>NETLIFY_TOKEN\<close> (\<open>None\<close> when
  unset), the fields of \<^verbatim>\<open>github.context\<close> that are read, the input \<^verbatim>\<open>max_timeout\<close>
  after \<^verbatim>\<open>Number\<close> (\<open>None\<close> when it is not a number; whole seconds otherwise) and the
  input \<^verbatim>\<open>site_id\<close>. The environment answers the requests.
\<close>

record inputs =
  NETLIFY_TOKEN :: "string option"
  eventName :: string
  pull_request_head_sha :: string
  sha :: string
  max_timeout :: "int option"
  site_id :: string

record world =
  listing_responses :: listing_endpoint
  deploy_responses :: deploy_endpoint
  site_responses :: site

definition commitSha_of :: "inputs \<Rightarrow> string" where
  "commitSha_of c = (if eventName c = ''pull_request'' then pull_request_head_sha c else sha c)"

definition MAX_CREATE_TIMEOUT :: int where
  "MAX_CREATE_TIMEOUT = 60 * 5"

definition MAX_WAIT_TIMEOUT :: int where
  "MAX_WAIT_TIMEOUT = 60 * 15"

definition MAX_READY_TIMEOUT :: "inputs \<Rightarrow> int" where
  "MAX_READY_TIMEOUT c = (case max_timeout c of None \<Rightarrow> 60 | Some n \<Rightarrow> if n = 0 then 60 else n)"

definition listing_url :: "string \<Rightarrow> string" where
  "listing_url siteId = ''https://api.netlify.com/api/v1/sites/'' @ siteId @ ''/deploys''"

definition deploy_url :: "string \<Rightarrow> string \<Rightarrow> string" where
  "deploy_url siteId ident = ''https://api.netlify.com/api/v1/sites/'' @ siteId @ ''/deploys/'' @ ident"

definition preview_url :: "deployment \<Rightarrow> string" where
  "preview_url d = ''https://'' @ deploy_id d @ ''--'' @ name d @ ''.netlify.app''"

text \<open>The three checks of the configuration: each reports a failure and the run goes on.\<close>

definition check_configuration :: "inputs \<Rightarrow> event list" where
  "check_configuration c =
     (if NETLIFY_TOKEN c = None \<or> NETLIFY_TOKEN c = Some [] then
        [SetFailed ''Please set NETLIFY_TOKEN env variable to your Netlify Personal Access Token secret'']
      else [])
     @ (if commitSha_of c = [] then [SetFailed ''Could not determine GitHub commit''] else [])
     @ (if site_id c = [] then [SetFailed ''Required field `site_id` was not provided''] else [])"

text \<open>
  How a run ends: it falls off the end of the \<^verbatim>\<open>try\<close> block (\<open>Finished\<close>), it leaves by
  the \<^verbatim>\<open>return\<close> of the no-preview branch (\<open>Skipped\<close>), it enters the \<^verbatim>\<open>catch\<close> block
  (\<open>Caught\<close>), or it awaits a promise that never settles (\<open>Hung\<close>).
\<close>

datatype run_exit = Finished | Skipped | Caught | Hung

definition message_of :: "js_error \<Rightarrow> string" where
  "message_of e = (case e of Str m \<Rightarrow> m | Error m \<Rightarrow> m)"

definition catch :: "js_error \<Rightarrow> io \<Rightarrow> run_exit \<times> io" where
  "catch e s = (Caught, say (SetFailed (message_of e)) s)"

text \<open>
  \<^verbatim>\<open>new Error(m).message\<close> is \<open>m\<close>, and the empty string when \<open>m\<close> is undefined.
  \<open>None\<close> stands for an absent field; a field that is JSON null, whose message would be
  the word null, is not modelled.
\<close>

definition new_Error :: "string option \<Rightarrow> js_error" where
  "new_Error m = Error (case m of None \<Rightarrow> [] | Some t \<Rightarrow> t)"

text \<open>
  Lines 168 to 180: what the run does once it is past the branch on the error state,
  with the URL it has at that point.
\<close>

definition publish_and_wait ::
  "world \<Rightarrow> inputs \<Rightarrow> deployment \<Rightarrow> string \<Rightarrow> io \<Rightarrow> run_exit \<times> io" where
  "publish_and_wait w c commitDeployment url s =
     (let s1 = say (SetOutput ''deploy_id'' (JStr (deploy_id commitDeployment))) s;
          s2 = say (SetOutput ''url'' (JStr url)) s1;
          s3 = say (ConsoleLog (''Waiting for Netlify deployment '' @ deploy_id commitDeployment
                 @ '' in site '' @ name commitDeployment @ '' to be ready'')) s2;
          ready = waitForReadiness (deploy_responses w)
                    (deploy_url (site_id c) (deploy_id commitDeployment)) MAX_WAIT_TIMEOUT;
          s4 = s3\<lparr>trace := trace s3 @ log ready\<rparr>
      in case settled ready of
           Pending \<Rightarrow> (Hung, s4)
         | Rejected m \<Rightarrow> catch (Str m) s4
         | Fulfilled u \<Rightarrow>
             (let s5 = say (ConsoleLog (''Waiting for a 200 or 401 from: '' @ url)) s4;
                  probed = waitForUrl (site_responses w) url (MAX_READY_TIMEOUT c) False s5
              in case fst probed of
                   Returned \<Rightarrow> (Finished, snd probed)
                 | Throws e \<Rightarrow> catch e (snd probed)))"

text \<open>
  The function \<^verbatim>\<open>run\<close>, up to the moment its own promise settles. Each waiter's
  events are appended when its promise settles; what a timer that is still armed then
  does afterwards is given by \<open>creation_timer_lifetime\<close>.
\<close>

definition run :: "world \<Rightarrow> inputs \<Rightarrow> run_exit \<times> io" where
  "run w c =
     (let commitSha = commitSha_of c;
          siteId = site_id c;
          s0 = \<lparr>trace = check_configuration c, requests = 0, interceptors = 0\<rparr>;
          s1 = say (ConsoleLog (''Waiting for Netlify to create a deployment for git SHA ''
                 @ commitSha)) s0;
          created = waitForDeployCreation (listing_responses w) (listing_url siteId) commitSha
                      MAX_CREATE_TIMEOUT;
          s2 = s1\<lparr>trace := trace s1 @ log created\<rparr>
      in case settled created of
           Pending \<Rightarrow> (Hung, s2)
         | Rejected m \<Rightarrow> catch (Str m) s2
         | Fulfilled commitDeployment \<Rightarrow>
             if state commitDeployment = ''error'' then
               if matcher_test (error_message commitDeployment) then
                 (let url = deploy_ssl_url commitDeployment;
                      probed = waitForUrl (site_responses w) url 3 True s2
                  in case fst probed of
                       Throws e \<Rightarrow>
                         (Skipped,
                          say (SetOutput ''nopreview'' (JNum 1))
                            (say (Info (''No deployment available: ''
                                    @ template (error_message commitDeployment)))
                              (say (Notice ''Skipping: no deployment available for this branch'')
                                (snd probed))))
                     | Returned \<Rightarrow> publish_and_wait w c commitDeployment url (snd probed))
               else catch (new_Error (error_message commitDeployment)) s2
             else publish_and_wait w c commitDeployment (preview_url commitDeployment) s2)"

section \<open>Notions used to state the properties\<close>

text \<open>
  The number of ticks that issue a request before the tick that times out: the ticks
  \<open>1, 2, \<dots>\<close> of a timer of period \<open>increment\<close> whose elapsed time stays below the
  budget.
\<close>

definition polls_before_timeout :: "int \<Rightarrow> int \<Rightarrow> nat" where
  "polls_before_timeout increment budget = nat ((budget - 1) div increment)"

text \<open>
  An attempt of the prober fails when the n-th plain request, seen through the
  interceptor, is a rejection: this is when \<^verbatim>\<open>await axios.get(url)\<close> throws.
\<close>

definition probe_fails :: "site \<Rightarrow> string \<Rightarrow> nat \<Rightarrow> bool" where
  "probe_fails pages url n =
     (case interceptor (pages n url) of Resolves r \<Rightarrow> False | Rejects e \<Rightarrow> True)"

text \<open>What one failed attempt that is retried leaves in the trace.\<close>

definition retry_events :: "string \<Rightarrow> event list" where
  "retry_events url =
     [AxiosGet url, ConsoleLog (''URL '' @ url @ '' unavailable, retrying...''), Sleep 3000]"

text \<open>The events that each of the three waiters can produce.\<close>

definition creation_events :: "string \<Rightarrow> event set" where
  "creation_events url =
     {SetInterval 15000, ClearInterval, NetlifyGet url, UnhandledRejection,
      ConsoleLog ''Not yet created, waiting 15 more seconds...''}"

definition readiness_events :: "string \<Rightarrow> event set" where
  "readiness_events url =
     {SetInterval 30000, ClearInterval, NetlifyGet url, UnhandledRejection,
      ConsoleLog ''Not yet ready, waiting 30 more seconds...''}"

definition prober_events :: "string \<Rightarrow> event set" where
  "prober_events url =
     {AxiosGet url, ConsoleLog (''URL '' @ url @ '' unavailable, retrying...''), Sleep 3000,
      SetFailed (''Timeout reached: Unable to connect to '' @ url)}"

fun is_output :: "event \<Rightarrow> bool" where
  "is_output (SetOutput k v) = True"
| "is_output e = False"

fun is_probe :: "event \<Rightarrow> bool" where
  "is_probe (AxiosGet u) = True"
| "is_probe e = False"

fun is_failure :: "event \<Rightarrow> bool" where
  "is_failure (SetFailed m) = True"
| "is_failure e = False"

text \<open>The two waiter sessions of a run, as \<open>run\<close> starts them.\<close>

definition created :: "world \<Rightarrow> inputs \<Rightarrow> deployment session" where
  "created w c =
     waitForDeployCreation (listing_responses w) (listing_url (site_id c)) (commitSha_of c)
       MAX_CREATE_TIMEOUT"

definition readied :: "world \<Rightarrow> inputs \<Rightarrow> deployment \<Rightarrow> unit session" where
  "readied w c d =
     waitForReadiness (deploy_responses w) (deploy_url (site_id c) (deploy_id d))
       MAX_WAIT_TIMEOUT"

subsection \<open>Concrete scenarios\<close>

definition built :: deployment where
  "built = \<lparr>deploy_id = ''64f0c1'', name = ''docs'', commit_ref = Some ''abc123'',
            state = ''ready'', error_message = None,
            deploy_ssl_url = ''https://main--docs.netlify.app''\<rparr>"

definition earlier :: deployment where
  "earlier = built\<lparr>deploy_id := ''5e11aa'', commit_ref := Some ''fff000''\<rparr>"

definition skipped_build :: deployment where
  "skipped_build = built\<lparr>state := ''error'',
     error_message := Some ''Canceled build due to no content change''\<rparr>"

definition failed_build :: deployment where
  "failed_build = built\<lparr>state := ''error'', error_message := Some ''build script failed''\<rparr>"

definition appears_at_third_poll :: "nat \<Rightarrow> deployment list" where
  "appears_at_third_poll j = (if j = 2 then [earlier, built] else [earlier])"

definition never_appears :: "nat \<Rightarrow> deployment list" where
  "never_appears j = [earlier]"

definition appears_too_late :: "nat \<Rightarrow> deployment list" where
  "appears_too_late j = (if 19 \<le> j then [earlier, built] else [earlier])"

definition ready_at_third_poll :: "nat \<Rightarrow> deployment" where
  "ready_at_third_poll j = built\<lparr>state := (if j = 2 then ''current'' else ''building'')\<rparr>"

definition always_building :: "nat \<Rightarrow> deployment" where
  "always_building j = built\<lparr>state := ''building''\<rparr>"

definition unreachable :: site where
  "unreachable n url = Rejects (AxiosError None)"

definition reachable :: site where
  "reachable n url = Resolves (HttpResponse 200)"

definition fresh :: io where
  "fresh = \<lparr>trace = [], requests = 0, interceptors = 0\<rparr>"

definition push_inputs :: inputs where
  "push_inputs = \<lparr>NETLIFY_TOKEN = Some ''secret'', eventName = ''push'',
     pull_request_head_sha = [], sha = ''abc123'', max_timeout = None, site_id = ''site1''\<rparr>"

definition world_of :: "deployment \<Rightarrow> site \<Rightarrow> world" where
  "world_of d pages =
     \<lparr>listing_responses = (\<lambda>n. Response (Some [earlier, d])),
      deploy_responses = (\<lambda>n. Response (Some d)),
      site_responses = pages\<rparr>"

section \<open>The creation waiter, tick by tick\<close>

lemma creation_tick_timeout:
  assumes "MAX_TIMEOUT \<le> elapsedTimeSeconds s + 15"
  shows "creation_tick net url commitSha MAX_TIMEOUT s =
         s\<lparr>elapsedTimeSeconds := elapsedTimeSeconds s + 15, armed := False,
           settled := reject (creation_timeout_message MAX_TIMEOUT) (settled s),
           log := log s @ [ClearInterval]\<rparr>"
  using assms by (simp add: creation_tick_def clearInterval_def emit_def)

lemma creation_tick_wait:
  assumes "elapsedTimeSeconds s + 15 < MAX_TIMEOUT"
    and "net (fetches s) = Response (Some ds)"
    and "find (\<lambda>d. commit_ref d = Some commitSha) ds = None"
  shows "creation_tick net url commitSha MAX_TIMEOUT s =
         s\<lparr>elapsedTimeSeconds := elapsedTimeSeconds s + 15, fetches := fetches s + 1,
           log := log s @ [NetlifyGet url,
                   ConsoleLog ''Not yet created, waiting 15 more seconds...'']\<rparr>"
  using assms by (simp add: creation_tick_def clearInterval_def emit_def)

lemma creation_tick_found:
  assumes "elapsedTimeSeconds s + 15 < MAX_TIMEOUT"
    and "net (fetches s) = Response (Some ds)"
    and "find (\<lambda>d. commit_ref d = Some commitSha) ds = Some d"
  shows "creation_tick net url commitSha MAX_TIMEOUT s =
         s\<lparr>elapsedTimeSeconds := elapsedTimeSeconds s + 15, fetches := fetches s + 1,
           armed := False, settled := resolve d (settled s),
           log := log s @ [NetlifyGet url, ClearInterval]\<rparr>"
  using assms by (simp add: creation_tick_def clearInterval_def emit_def)

lemma creation_poll_stop:
  "\<not> armed s \<Longrightarrow> creation_poll b net url commitSha MAX_TIMEOUT s = s"
  by (simp add: creation_poll.simps)

lemma creation_poll_step:
  "armed s \<Longrightarrow> settled s = Pending \<Longrightarrow>
   creation_poll b net url commitSha MAX_TIMEOUT s =
   creation_poll b net url commitSha MAX_TIMEOUT (creation_tick net url commitSha MAX_TIMEOUT s)"
  by (subst creation_poll.simps) simp

lemma creation_poll_found:
  assumes "armed s" and "settled s = Pending"
    and "\<forall>j<k. find (\<lambda>d. commit_ref d = Some commitSha) (ls (fetches s + j)) = None"
    and "find (\<lambda>d. commit_ref d = Some commitSha) (ls (fetches s + k)) = Some d"
    and "elapsedTimeSeconds s + 15 * (int k + 1) < MAX_TIMEOUT"
  shows "creation_poll b (\<lambda>j. Response (Some (ls j))) url commitSha MAX_TIMEOUT s =
         s\<lparr>elapsedTimeSeconds := elapsedTimeSeconds s + 15 * (int k + 1),
           fetches := fetches s + k + 1, armed := False, settled := Fulfilled d,
           log := log s
             @ concat (replicate k [NetlifyGet url,
                 ConsoleLog ''Not yet created, waiting 15 more seconds...''])
             @ [NetlifyGet url, ClearInterval]\<rparr>"
  using assms
proof (induction k arbitrary: s)
  case 0
  let ?net = "\<lambda>j. Response (Some (ls j))"
  have t: "creation_tick ?net url commitSha MAX_TIMEOUT s =
         s\<lparr>elapsedTimeSeconds := elapsedTimeSeconds s + 15, fetches := fetches s + 1,
           armed := False, settled := resolve d (settled s),
           log := log s @ [NetlifyGet url, ClearInterval]\<rparr>"
    using 0 by (intro creation_tick_found[where ds = "ls (fetches s)"]) auto
  show ?case
    using 0 by (simp add: creation_poll_step t creation_poll_stop)
next
  case (Suc k)
  let ?net = "\<lambda>j. Response (Some (ls j))"
  let ?s' = "s\<lparr>elapsedTimeSeconds := elapsedTimeSeconds s + 15, fetches := fetches s + 1,
           log := log s @ [NetlifyGet url,
                   ConsoleLog ''Not yet created, waiting 15 more seconds...'']\<rparr>"
  have none: "find (\<lambda>d. commit_ref d = Some commitSha) (ls (fetches s)) = None"
    using Suc.prems(3) by (metis add.right_neutral zero_less_Suc)
  have t: "creation_tick ?net url commitSha MAX_TIMEOUT s = ?s'"
    using Suc.prems none by (intro creation_tick_wait[where ds = "ls (fetches s)"]) auto
  have rest: "creation_poll b ?net url commitSha MAX_TIMEOUT ?s' =
         ?s'\<lparr>elapsedTimeSeconds := elapsedTimeSeconds ?s' + 15 * (int k + 1),
           fetches := fetches ?s' + k + 1, armed := False, settled := Fulfilled d,
           log := log ?s'
             @ concat (replicate k [NetlifyGet url,
                 ConsoleLog ''Not yet created, waiting 15 more seconds...''])
             @ [NetlifyGet url, ClearInterval]\<rparr>"
  proof (rule Suc.IH)
    show "armed ?s'" using Suc.prems by simp
    show "settled ?s' = Pending" using Suc.prems by simp
    show "\<forall>j<k. find (\<lambda>d. commit_ref d = Some commitSha) (ls (fetches ?s' + j)) = None"
      using Suc.prems(3) by (auto dest: spec[where x = "Suc j" for j])
    show "find (\<lambda>d. commit_ref d = Some commitSha) (ls (fetches ?s' + k)) = Some d"
      using Suc.prems(4) by simp
    show "elapsedTimeSeconds ?s' + 15 * (int k + 1) < MAX_TIMEOUT"
      using Suc.prems(5) by simp
  qed
  have "creation_poll b ?net url commitSha MAX_TIMEOUT s =
        creation_poll b ?net url commitSha MAX_TIMEOUT ?s'"
    using Suc.prems(1,2) creation_poll_step[of s b ?net url commitSha MAX_TIMEOUT]
    by (simp only: t)
  also note rest
  finally show ?case by simp
qed


lemma polls15_zero: "polls_before_timeout 15 b = 0 \<longleftrightarrow> b \<le> 15"
  unfolding polls_before_timeout_def by arith

lemma polls15_Suc: "polls_before_timeout 15 b = Suc n \<Longrightarrow> 15 < b \<and> polls_before_timeout 15 (b - 15) = n"
  unfolding polls_before_timeout_def by arith

lemma creation_poll_timeout:
  assumes "armed s" and "settled s = Pending"
    and "\<forall>j. elapsedTimeSeconds s + 15 * (int j + 1) < MAX_TIMEOUT \<longrightarrow>
           find (\<lambda>d. commit_ref d = Some commitSha) (ls (fetches s + j)) = None"
    and "n = polls_before_timeout 15 (MAX_TIMEOUT - elapsedTimeSeconds s)"
  shows "creation_poll b (\<lambda>j. Response (Some (ls j))) url commitSha MAX_TIMEOUT s =
         s\<lparr>elapsedTimeSeconds := elapsedTimeSeconds s + 15 * (int n + 1),
           fetches := fetches s + n, armed := False,
           settled := Rejected (creation_timeout_message MAX_TIMEOUT),
           log := log s
             @ concat (replicate n [NetlifyGet url,
                 ConsoleLog ''Not yet created, waiting 15 more seconds...''])
             @ [ClearInterval]\<rparr>"
  using assms
proof (induction n arbitrary: s)
  case 0
  let ?net = "\<lambda>j. Response (Some (ls j))"
  have late: "MAX_TIMEOUT \<le> elapsedTimeSeconds s + 15"
    using 0(4) polls15_zero[of "MAX_TIMEOUT - elapsedTimeSeconds s"] by simp
  have "creation_poll b ?net url commitSha MAX_TIMEOUT s =
        creation_poll b ?net url commitSha MAX_TIMEOUT
          (creation_tick ?net url commitSha MAX_TIMEOUT s)"
    using 0(1,2) by (rule creation_poll_step)
  also have "\<dots> = creation_tick ?net url commitSha MAX_TIMEOUT s"
    by (rule creation_poll_stop) (simp add: creation_tick_timeout[OF late])
  finally show ?case
    using 0(2) by (simp add: creation_tick_timeout[OF late])
next
  case (Suc n)
  let ?net = "\<lambda>j. Response (Some (ls j))"
  let ?s' = "s\<lparr>elapsedTimeSeconds := elapsedTimeSeconds s + 15, fetches := fetches s + 1,
           log := log s @ [NetlifyGet url,
                   ConsoleLog ''Not yet created, waiting 15 more seconds...'']\<rparr>"
  from polls15_Suc[OF Suc.prems(4)[symmetric]]
  have early: "elapsedTimeSeconds s + 15 < MAX_TIMEOUT"
    and n: "n = polls_before_timeout 15 (MAX_TIMEOUT - elapsedTimeSeconds ?s')"
    by (simp_all add: algebra_simps)
  have none: "find (\<lambda>d. commit_ref d = Some commitSha) (ls (fetches s)) = None"
    using Suc.prems(3) early by (auto dest: spec[where x = 0])
  have t: "creation_tick ?net url commitSha MAX_TIMEOUT s = ?s'"
    using early none by (intro creation_tick_wait[where ds = "ls (fetches s)"]) auto
  have rest: "creation_poll b ?net url commitSha MAX_TIMEOUT ?s' =
         ?s'\<lparr>elapsedTimeSeconds := elapsedTimeSeconds ?s' + 15 * (int n + 1),
           fetches := fetches ?s' + n, armed := False,
           settled := Rejected (creation_timeout_message MAX_TIMEOUT),
           log := log ?s'
             @ concat (replicate n [NetlifyGet url,
                 ConsoleLog ''Not yet created, waiting 15 more seconds...''])
             @ [ClearInterval]\<rparr>"
  proof (rule Suc.IH)
    show "armed ?s'" using Suc.prems by simp
    show "settled ?s' = Pending" using Suc.prems by simp
    show "\<forall>j. elapsedTimeSeconds ?s' + 15 * (int j + 1) < MAX_TIMEOUT \<longrightarrow>
           find (\<lambda>d. commit_ref d = Some commitSha) (ls (fetches ?s' + j)) = None"
    proof (intro allI impI)
      fix j
      assume "elapsedTimeSeconds ?s' + 15 * (int j + 1) < MAX_TIMEOUT"
      then have "elapsedTimeSeconds s + 15 * (int (Suc j) + 1) < MAX_TIMEOUT" by simp
      with Suc.prems(3)
      have "find (\<lambda>d. commit_ref d = Some commitSha) (ls (fetches s + Suc j)) = None"
        by blast
      then show "find (\<lambda>d. commit_ref d = Some commitSha) (ls (fetches ?s' + j)) = None"
        by simp
    qed
    show "n = polls_before_timeout 15 (MAX_TIMEOUT - elapsedTimeSeconds ?s')" by (rule n)
  qed
  have "creation_poll b ?net url commitSha MAX_TIMEOUT s =
        creation_poll b ?net url commitSha MAX_TIMEOUT ?s'"
    using Suc.prems(1,2) creation_poll_step[of s b ?net url commitSha MAX_TIMEOUT]
    by (simp only: t)
  also note rest
  finally show ?case by simp
qed

text \<open>The exits of a tick: two cancel the timer, the not-found exit does not.\<close>

lemma creation_exits_that_cancel:
  assumes "settled s = Pending"
    and "settled (creation_tick net url commitSha MAX_TIMEOUT s) \<noteq> Pending"
    and "settled (creation_tick net url commitSha MAX_TIMEOUT s)
           \<noteq> Rejected ''Failed to get deployments for site''"
  shows "\<not> armed (creation_tick net url commitSha MAX_TIMEOUT s)"
  using assms
  by (auto simp: creation_tick_def clearInterval_def emit_def Let_def
           split: fetched.splits option.splits if_splits)

lemma not_found_exit:
  assumes "armed s" and "settled s = Pending"
    and "elapsedTimeSeconds s + 15 < MAX_TIMEOUT" and "net (fetches s) = Response None"
  shows "creation_poll True net url commitSha MAX_TIMEOUT s =
         s\<lparr>elapsedTimeSeconds := elapsedTimeSeconds s + 15, fetches := fetches s + 1,
           settled := Rejected ''Failed to get deployments for site'',
           log := log s @ [NetlifyGet url]\<rparr>"
proof -
  have t: "creation_tick net url commitSha MAX_TIMEOUT s =
         s\<lparr>elapsedTimeSeconds := elapsedTimeSeconds s + 15, fetches := fetches s + 1,
           settled := Rejected ''Failed to get deployments for site'',
           log := log s @ [NetlifyGet url]\<rparr>"
    using assms by (simp add: creation_tick_def emit_def)
  have "creation_poll True net url commitSha MAX_TIMEOUT s =
        creation_poll True net url commitSha MAX_TIMEOUT
          (creation_tick net url commitSha MAX_TIMEOUT s)"
    using assms(1,2) by (rule creation_poll_step)
  also have "\<dots> = creation_tick net url commitSha MAX_TIMEOUT s"
    by (subst creation_poll.simps) (simp add: t)
  finally show ?thesis by (simp only: t)
qed

section \<open>The readiness waiter, tick by tick\<close>

lemma polls30_zero: "polls_before_timeout 30 b = 0 \<longleftrightarrow> b \<le> 30"
  unfolding polls_before_timeout_def by arith

lemma polls30_Suc:
  "polls_before_timeout 30 b = Suc n \<Longrightarrow> 30 < b \<and> polls_before_timeout 30 (b - 30) = n"
  unfolding polls_before_timeout_def by arith

lemma readiness_tick_timeout:
  assumes "MAX_TIMEOUT \<le> elapsedTimeSeconds s + 30"
  shows "readiness_tick net url MAX_TIMEOUT s =
         s\<lparr>elapsedTimeSeconds := elapsedTimeSeconds s + 30, armed := False,
           settled := reject (readiness_timeout_message MAX_TIMEOUT (state_var s)) (settled s),
           log := log s @ [ClearInterval]\<rparr>"
  using assms by (simp add: readiness_tick_def clearInterval_def emit_def)

lemma readiness_tick_wait:
  assumes "elapsedTimeSeconds s + 30 < MAX_TIMEOUT"
    and "net (fetches s) = Response (Some deploy)"
    and "state deploy \<notin> set READY_STATES"
  shows "readiness_tick net url MAX_TIMEOUT s =
         s\<lparr>elapsedTimeSeconds := elapsedTimeSeconds s + 30, fetches := fetches s + 1,
           state_var := Some (state deploy),
           log := log s @ [NetlifyGet url,
                   ConsoleLog ''Not yet ready, waiting 30 more seconds...'']\<rparr>"
  using assms by (simp add: readiness_tick_def clearInterval_def emit_def)

lemma readiness_tick_ready:
  assumes "elapsedTimeSeconds s + 30 < MAX_TIMEOUT"
    and "net (fetches s) = Response (Some deploy)"
    and "state deploy \<in> set READY_STATES"
  shows "readiness_tick net url MAX_TIMEOUT s =
         s\<lparr>elapsedTimeSeconds := elapsedTimeSeconds s + 30, fetches := fetches s + 1,
           state_var := Some (state deploy), armed := False,
           settled := resolve () (settled s),
           log := log s @ [NetlifyGet url, ClearInterval]\<rparr>"
  using assms by (simp add: readiness_tick_def clearInterval_def emit_def)

lemma readiness_poll_stop:
  "\<not> armed s \<Longrightarrow> readiness_poll b net url MAX_TIMEOUT s = s"
  by (simp add: readiness_poll.simps)

lemma readiness_poll_step:
  "armed s \<Longrightarrow> settled s = Pending \<Longrightarrow>
   readiness_poll b net url MAX_TIMEOUT s =
   readiness_poll b net url MAX_TIMEOUT (readiness_tick net url MAX_TIMEOUT s)"
  by (subst readiness_poll.simps) simp

lemma readiness_poll_ready:
  assumes "armed s" and "settled s = Pending"
    and "\<forall>j<k. state (ds (fetches s + j)) \<notin> set READY_STATES"
    and "state (ds (fetches s + k)) \<in> set READY_STATES"
    and "elapsedTimeSeconds s + 30 * (int k + 1) < MAX_TIMEOUT"
  shows "readiness_poll b (\<lambda>j. Response (Some (ds j))) url MAX_TIMEOUT s =
         s\<lparr>elapsedTimeSeconds := elapsedTimeSeconds s + 30 * (int k + 1),
           fetches := fetches s + k + 1, armed := False, settled := Fulfilled (),
           state_var := Some (state (ds (fetches s + k))),
           log := log s
             @ concat (replicate k [NetlifyGet url,
                 ConsoleLog ''Not yet ready, waiting 30 more seconds...''])
             @ [NetlifyGet url, ClearInterval]\<rparr>"
  using assms
proof (induction k arbitrary: s)
  case 0
  let ?net = "\<lambda>j. Response (Some (ds j))"
  have t: "readiness_tick ?net url MAX_TIMEOUT s =
         s\<lparr>elapsedTimeSeconds := elapsedTimeSeconds s + 30, fetches := fetches s + 1,
           state_var := Some (state (ds (fetches s))), armed := False,
           settled := resolve () (settled s),
           log := log s @ [NetlifyGet url, ClearInterval]\<rparr>"
    using 0 by (intro readiness_tick_ready) auto
  have "readiness_poll b ?net url MAX_TIMEOUT s =
        readiness_poll b ?net url MAX_TIMEOUT (readiness_tick ?net url MAX_TIMEOUT s)"
    using 0(1,2) by (rule readiness_poll_step)
  also have "\<dots> = readiness_tick ?net url MAX_TIMEOUT s"
    by (rule readiness_poll_stop) (simp add: t)
  finally show ?case
    using 0(2) by (simp add: t)
next
  case (Suc k)
  let ?net = "\<lambda>j. Response (Some (ds j))"
  let ?s' = "s\<lparr>elapsedTimeSeconds := elapsedTimeSeconds s + 30, fetches := fetches s + 1,
           state_var := Some (state (ds (fetches s))),
           log := log s @ [NetlifyGet url,
                   ConsoleLog ''Not yet ready, waiting 30 more seconds...'']\<rparr>"
  have notyet: "state (ds (fetches s)) \<notin> set READY_STATES"
    using Suc.prems(3) by (auto dest: spec[where x = 0])
  have t: "readiness_tick ?net url MAX_TIMEOUT s = ?s'"
    using Suc.prems notyet by (intro readiness_tick_wait) auto
  have rest: "readiness_poll b ?net url MAX_TIMEOUT ?s' =
         ?s'\<lparr>elapsedTimeSeconds := elapsedTimeSeconds ?s' + 30 * (int k + 1),
           fetches := fetches ?s' + k + 1, armed := False, settled := Fulfilled (),
           state_var := Some (state (ds (fetches ?s' + k))),
           log := log ?s'
             @ concat (replicate k [NetlifyGet url,
                 ConsoleLog ''Not yet ready, waiting 30 more seconds...''])
             @ [NetlifyGet url, ClearInterval]\<rparr>"
  proof (rule Suc.IH)
    show "armed ?s'" using Suc.prems by simp
    show "settled ?s' = Pending" using Suc.prems by simp
    show "\<forall>j<k. state (ds (fetches ?s' + j)) \<notin> set READY_STATES"
      using Suc.prems(3) by (auto dest: spec[where x = "Suc j" for j])
    show "state (ds (fetches ?s' + k)) \<in> set READY_STATES"
      using Suc.prems(4) by simp
    show "elapsedTimeSeconds ?s' + 30 * (int k + 1) < MAX_TIMEOUT"
      using Suc.prems(5) by simp
  qed
  have "readiness_poll b ?net url MAX_TIMEOUT s =
        readiness_poll b ?net url MAX_TIMEOUT ?s'"
    using Suc.prems(1,2) readiness_poll_step[of s b ?net url MAX_TIMEOUT]
    by (simp only: t)
  also note rest
  finally show ?case by simp
qed

lemma readiness_poll_timeout:
  assumes "armed s" and "settled s = Pending"
    and "\<forall>j. elapsedTimeSeconds s + 30 * (int j + 1) < MAX_TIMEOUT \<longrightarrow>
           state (ds (fetches s + j)) \<notin> set READY_STATES"
    and "n = polls_before_timeout 30 (MAX_TIMEOUT - elapsedTimeSeconds s)"
  shows "readiness_poll b (\<lambda>j. Response (Some (ds j))) url MAX_TIMEOUT s =
         s\<lparr>elapsedTimeSeconds := elapsedTimeSeconds s + 30 * (int n + 1),
           fetches := fetches s + n, armed := False,
           state_var := (if n = 0 then state_var s else Some (state (ds (fetches s + n - 1)))),
           settled := Rejected (readiness_timeout_message MAX_TIMEOUT
             (if n = 0 then state_var s else Some (state (ds (fetches s + n - 1))))),
           log := log s
             @ concat (replicate n [NetlifyGet url,
                 ConsoleLog ''Not yet ready, waiting 30 more seconds...''])
             @ [ClearInterval]\<rparr>"
  using assms
proof (induction n arbitrary: s)
  case 0
  let ?net = "\<lambda>j. Response (Some (ds j))"
  have late: "MAX_TIMEOUT \<le> elapsedTimeSeconds s + 30"
    using 0(4) polls30_zero[of "MAX_TIMEOUT - elapsedTimeSeconds s"] by simp
  have "readiness_poll b ?net url MAX_TIMEOUT s =
        readiness_poll b ?net url MAX_TIMEOUT (readiness_tick ?net url MAX_TIMEOUT s)"
    using 0(1,2) by (rule readiness_poll_step)
  also have "\<dots> = readiness_tick ?net url MAX_TIMEOUT s"
    by (rule readiness_poll_stop) (simp add: readiness_tick_timeout[OF late])
  finally show ?case
    using 0(2) by (simp add: readiness_tick_timeout[OF late])
next
  case (Suc n)
  let ?net = "\<lambda>j. Response (Some (ds j))"
  let ?s' = "s\<lparr>elapsedTimeSeconds := elapsedTimeSeconds s + 30, fetches := fetches s + 1,
           state_var := Some (state (ds (fetches s))),
           log := log s @ [NetlifyGet url,
                   ConsoleLog ''Not yet ready, waiting 30 more seconds...'']\<rparr>"
  from polls30_Suc[OF Suc.prems(4)[symmetric]]
  have early: "elapsedTimeSeconds s + 30 < MAX_TIMEOUT"
    and n: "n = polls_before_timeout 30 (MAX_TIMEOUT - elapsedTimeSeconds ?s')"
    by (simp_all add: algebra_simps)
  have notyet: "state (ds (fetches s)) \<notin> set READY_STATES"
    using Suc.prems(3) early by (auto dest: spec[where x = 0])
  have t: "readiness_tick ?net url MAX_TIMEOUT s = ?s'"
    using early notyet by (intro readiness_tick_wait) auto
  have rest: "readiness_poll b ?net url MAX_TIMEOUT ?s' =
         ?s'\<lparr>elapsedTimeSeconds := elapsedTimeSeconds ?s' + 30 * (int n + 1),
           fetches := fetches ?s' + n, armed := False,
           state_var := (if n = 0 then state_var ?s' else Some (state (ds (fetches ?s' + n - 1)))),
           settled := Rejected (readiness_timeout_message MAX_TIMEOUT
             (if n = 0 then state_var ?s' else Some (state (ds (fetches ?s' + n - 1))))),
           log := log ?s'
             @ concat (replicate n [NetlifyGet url,
                 ConsoleLog ''Not yet ready, waiting 30 more seconds...''])
             @ [ClearInterval]\<rparr>"
  proof (rule Suc.IH)
    show "armed ?s'" using Suc.prems by simp
    show "settled ?s' = Pending" using Suc.prems by simp
    show "\<forall>j. elapsedTimeSeconds ?s' + 30 * (int j + 1) < MAX_TIMEOUT \<longrightarrow>
           state (ds (fetches ?s' + j)) \<notin> set READY_STATES"
    proof (intro allI impI)
      fix j
      assume "elapsedTimeSeconds ?s' + 30 * (int j + 1) < MAX_TIMEOUT"
      then have "elapsedTimeSeconds s + 30 * (int (Suc j) + 1) < MAX_TIMEOUT" by simp
      with Suc.prems(3)
      have "state (ds (fetches s + Suc j)) \<notin> set READY_STATES"
        by blast
      then show "state (ds (fetches ?s' + j)) \<notin> set READY_STATES"
        by simp
    qed
    show "n = polls_before_timeout 30 (MAX_TIMEOUT - elapsedTimeSeconds ?s')" by (rule n)
  qed
  have "readiness_poll b ?net url MAX_TIMEOUT s =
        readiness_poll b ?net url MAX_TIMEOUT ?s'"
    using Suc.prems(1,2) readiness_poll_step[of s b ?net url MAX_TIMEOUT]
    by (simp only: t)
  also note rest
  finally show ?case by (cases n) simp_all
qed

text \<open>Both exits of a tick of the readiness waiter cancel the timer.\<close>

lemma readiness_exits_cancel:
  assumes "settled s = Pending"
    and "settled (readiness_tick net url MAX_TIMEOUT s) \<noteq> Pending"
  shows "\<not> armed (readiness_tick net url MAX_TIMEOUT s)"
  using assms
  by (auto simp: readiness_tick_def clearInterval_def emit_def Let_def
           split: fetched.splits option.splits if_splits)

section \<open>The prober, attempt by attempt\<close>

lemma interceptor_idem: "interceptor (interceptor x) = interceptor x"
proof (cases x)
  case (Resolves r)
  then show ?thesis by (simp add: onFulfilled_def)
next
  case (Rejects e)
  then show ?thesis
    by (cases e rule: onRejected.cases) (simp_all add: onFulfilled_def)
qed

lemma interceptor_funpow: "(interceptor ^^ Suc m) x = interceptor x"
  by (induction m) (simp_all add: interceptor_idem)

lemma axios_get_registered:
  assumes "0 < interceptors s"
  shows "axios_get web url s =
         (interceptor (web (requests s) url), say (AxiosGet url) (s\<lparr>requests := requests s + 1\<rparr>))"
proof -
  from assms obtain m where "interceptors s = Suc m" by (cases "interceptors s") auto
  then show ?thesis by (simp only: axios_get_def interceptor_funpow)
qed

lemma in_loop: "(of_nat i < (q::rat)) = (i < nat \<lceil>q\<rceil>)"
proof -
  have "(of_nat i < q) = (of_int (int i) < q)" by simp
  also have "\<dots> = (int i < \<lceil>q\<rceil>)" by (simp only: less_ceiling_iff)
  also have "\<dots> = (i < nat \<lceil>q\<rceil>)" by linarith
  finally show ?thesis .
qed

lemma loop_exhausted:
  assumes "0 < interceptors s"
    and "\<forall>j < nat \<lceil>iterations\<rceil> - i. probe_fails web url (requests s + j)"
    and "n = nat \<lceil>iterations\<rceil> - i"
  shows "waitForUrl_loop web url iterations False i s =
         (Returned,
          s\<lparr>requests := requests s + n,
            trace := trace s @ concat (replicate n (retry_events url))
              @ [SetFailed (''Timeout reached: Unable to connect to '' @ url)]\<rparr>)"
  using assms
proof (induction n arbitrary: i s)
  case 0
  then have "\<not> of_nat i < iterations" by (simp add: in_loop)
  then show ?case
    by (subst waitForUrl_loop.simps) (simp add: say_def)
next
  case (Suc n)
  let ?s' = "say (Sleep 3000)
               (say (ConsoleLog (''URL '' @ url @ '' unavailable, retrying...''))
                 (say (AxiosGet url) (s\<lparr>requests := requests s + 1\<rparr>)))"
  have inside: "of_nat i < iterations" using Suc.prems(3) by (simp add: in_loop)
  have "probe_fails web url (requests s)"
    using Suc.prems(2,3) by (auto dest: spec[where x = 0])
  then obtain e where e: "interceptor (web (requests s) url) = Rejects e"
    by (auto simp: probe_fails_def split: axios_result.splits)
  have step: "waitForUrl_loop web url iterations False i s =
              waitForUrl_loop web url iterations False (i + 1) ?s'"
    using inside e
    by (subst waitForUrl_loop.simps) (simp add: axios_get_registered[OF Suc.prems(1)])
  have rest: "waitForUrl_loop web url iterations False (i + 1) ?s' =
         (Returned,
          ?s'\<lparr>requests := requests ?s' + n,
            trace := trace ?s' @ concat (replicate n (retry_events url))
              @ [SetFailed (''Timeout reached: Unable to connect to '' @ url)]\<rparr>)"
  proof (rule Suc.IH)
    show "0 < interceptors ?s'" using Suc.prems(1) by (simp add: say_def)
    show "\<forall>j < nat \<lceil>iterations\<rceil> - (i + 1). probe_fails web url (requests ?s' + j)"
    proof (intro allI impI)
      fix j assume "j < nat \<lceil>iterations\<rceil> - (i + 1)"
      then have "Suc j < nat \<lceil>iterations\<rceil> - i" by simp
      with Suc.prems(2) have "probe_fails web url (requests s + Suc j)" by blast
      then show "probe_fails web url (requests ?s' + j)" by (simp add: say_def)
    qed
    show "n = nat \<lceil>iterations\<rceil> - (i + 1)" using Suc.prems(3) by simp
  qed
  show ?case
    unfolding step rest by (simp add: say_def retry_events_def)
qed

lemma loop_single_attempt:
  assumes "0 < interceptors s" and "of_nat i < iterations"
    and "probe_fails web url (requests s)"
  shows "waitForUrl_loop web url iterations True i s =
         (Throws (Str ''not found''), s\<lparr>requests := requests s + 1, trace := trace s @ [AxiosGet url]\<rparr>)"
proof -
  from assms(3) obtain e where e: "interceptor (web (requests s) url) = Rejects e"
    by (auto simp: probe_fails_def split: axios_result.splits)
  show ?thesis
    using assms(2) e
    by (subst waitForUrl_loop.simps) (simp add: axios_get_registered[OF assms(1)] say_def)
qed

lemma loop_success:
  assumes "0 < interceptors s" and "of_nat i < iterations"
    and "\<not> probe_fails web url (requests s)"
  shows "waitForUrl_loop web url iterations flag i s =
         (Returned, s\<lparr>requests := requests s + 1, trace := trace s @ [AxiosGet url]\<rparr>)"
proof -
  from assms(3) obtain r where r: "interceptor (web (requests s) url) = Resolves r"
    by (auto simp: probe_fails_def split: axios_result.splits)
  show ?thesis
    using assms(2) r
    by (subst waitForUrl_loop.simps) (simp add: axios_get_registered[OF assms(1)] say_def)
qed

lemma waitForUrl_exhausted:
  assumes "\<forall>j < nat \<lceil>rat_of_int MAX_TIMEOUT / 3\<rceil>. probe_fails web url (requests s + j)"
  shows "waitForUrl web url MAX_TIMEOUT False s =
         (Returned,
          s\<lparr>interceptors := interceptors s + 1,
            requests := requests s + nat \<lceil>rat_of_int MAX_TIMEOUT / 3\<rceil>,
            trace := trace s @ concat (replicate (nat \<lceil>rat_of_int MAX_TIMEOUT / 3\<rceil>) (retry_events url))
              @ [SetFailed (''Timeout reached: Unable to connect to '' @ url)]\<rparr>)"
proof -
  let ?s1 = "s\<lparr>interceptors := interceptors s + 1\<rparr>"
  have "waitForUrl_loop web url (of_int MAX_TIMEOUT / 3) False 0 ?s1 =
         (Returned,
          ?s1\<lparr>requests := requests ?s1 + nat \<lceil>rat_of_int MAX_TIMEOUT / 3\<rceil>,
            trace := trace ?s1 @ concat (replicate (nat \<lceil>rat_of_int MAX_TIMEOUT / 3\<rceil>) (retry_events url))
              @ [SetFailed (''Timeout reached: Unable to connect to '' @ url)]\<rparr>)"
    using assms by (intro loop_exhausted) simp_all
  then show ?thesis by (simp add: waitForUrl_def)
qed

lemma waitForUrl_single_attempt:
  assumes "0 < MAX_TIMEOUT" and "probe_fails web url (requests s)"
  shows "waitForUrl web url MAX_TIMEOUT True s =
         (Throws (Str ''not found''),
          s\<lparr>interceptors := interceptors s + 1, requests := requests s + 1,
            trace := trace s @ [AxiosGet url]\<rparr>)"
proof -
  let ?s1 = "s\<lparr>interceptors := interceptors s + 1\<rparr>"
  have "waitForUrl_loop web url (of_int MAX_TIMEOUT / 3) True 0 ?s1 =
        (Throws (Str ''not found''), ?s1\<lparr>requests := requests ?s1 + 1, trace := trace ?s1 @ [AxiosGet url]\<rparr>)"
    using assms by (intro loop_single_attempt) simp_all
  then show ?thesis by (simp add: waitForUrl_def)
qed

lemma waitForUrl_success:
  assumes "0 < MAX_TIMEOUT" and "\<not> probe_fails web url (requests s)"
  shows "waitForUrl web url MAX_TIMEOUT flag s =
         (Returned,
          s\<lparr>interceptors := interceptors s + 1, requests := requests s + 1,
            trace := trace s @ [AxiosGet url]\<rparr>)"
proof -
  let ?s1 = "s\<lparr>interceptors := interceptors s + 1\<rparr>"
  have "waitForUrl_loop web url (of_int MAX_TIMEOUT / 3) flag 0 ?s1 =
        (Returned, ?s1\<lparr>requests := requests ?s1 + 1, trace := trace ?s1 @ [AxiosGet url]\<rparr>)"
    using assms by (intro loop_success) simp_all
  then show ?thesis by (simp add: waitForUrl_def)
qed


lemma below_two: "(\<forall>j<2::nat. P j) = (P 0 \<and> P 1)"
  by (auto simp: numeral_2_eq_2 less_Suc_eq)

lemma ceil_7_3: "nat \<lceil>(7::rat) / 3\<rceil> = 3"
  by code_simp

lemma below_three: "(\<forall>j<3::nat. P j) = (P 0 \<and> P 1 \<and> P 2)"
  by (auto simp: numeral_3_eq_3 numeral_2_eq_2 less_Suc_eq)

subsection \<open>What the interceptor does to each kind of answer\<close>

lemma interceptor_401:
  "status r = 401 \<Longrightarrow> (interceptor ^^ Suc m) (Rejects (AxiosError (Some r))) = Resolves r"
  by (simp only: interceptor_funpow) simp

lemma interceptor_other_status:
  "status r \<noteq> 401 \<Longrightarrow>
   (interceptor ^^ Suc m) (Rejects (AxiosError (Some r))) = Rejects (AxiosError (Some r))"
  by (simp only: interceptor_funpow) simp

lemma interceptor_resolved: "(interceptor ^^ Suc m) (Resolves r) = Resolves r"
  by (simp only: interceptor_funpow) (simp add: onFulfilled_def)

lemma interceptor_without_response:
  "(interceptor ^^ Suc m) (Rejects (AxiosError None)) = Rejects TypeError"
  by (simp only: interceptor_funpow) simp

section \<open>What the waiters leave in the trace\<close>

lemma creation_tick_log:
  "set (log (creation_tick net url commitSha MAX_TIMEOUT s)) \<subseteq> set (log s) \<union> creation_events url"
  by (auto simp: creation_tick_def clearInterval_def emit_def creation_events_def Let_def
           split: fetched.splits option.splits)

lemma creation_poll_log:
  "set (log s) \<subseteq> creation_events url \<Longrightarrow>
   set (log (creation_poll b net url commitSha MAX_TIMEOUT s)) \<subseteq> creation_events url"
proof (induction b net url commitSha MAX_TIMEOUT s rule: creation_poll.induct)
  case (1 b net url commitSha MAX_TIMEOUT s)
  show ?case
  proof (cases "armed s \<and> (if b then settled s = Pending else True)")
    case True
    have "set (log (creation_tick net url commitSha MAX_TIMEOUT s)) \<subseteq> creation_events url"
      using creation_tick_log[of net url commitSha MAX_TIMEOUT s] "1.prems" by blast
    with "1.IH"[OF True] True show ?thesis
      by (subst creation_poll.simps) simp
  next
    case False
    with "1.prems" show ?thesis
      by (subst creation_poll.simps) auto
  qed
qed

lemma creation_log_events:
  "set (log (waitForDeployCreation net url commitSha MAX_TIMEOUT)) \<subseteq> creation_events url"
  unfolding waitForDeployCreation_def
  by (rule creation_poll_log) (simp add: start_def creation_events_def)

lemma readiness_tick_log:
  "set (log (readiness_tick net url MAX_TIMEOUT s)) \<subseteq> set (log s) \<union> readiness_events url"
  by (auto simp: readiness_tick_def clearInterval_def emit_def readiness_events_def Let_def
           split: fetched.splits option.splits)

lemma readiness_poll_log:
  "set (log s) \<subseteq> readiness_events url \<Longrightarrow>
   set (log (readiness_poll b net url MAX_TIMEOUT s)) \<subseteq> readiness_events url"
proof (induction b net url MAX_TIMEOUT s rule: readiness_poll.induct)
  case (1 b net url MAX_TIMEOUT s)
  show ?case
  proof (cases "armed s \<and> (if b then settled s = Pending else True)")
    case True
    have "set (log (readiness_tick net url MAX_TIMEOUT s)) \<subseteq> readiness_events url"
      using readiness_tick_log[of net url MAX_TIMEOUT s] "1.prems" by blast
    with "1.IH"[OF True] True show ?thesis
      by (subst readiness_poll.simps) simp
  next
    case False
    with "1.prems" show ?thesis
      by (subst readiness_poll.simps) auto
  qed
qed

lemma readiness_log_events:
  "set (log (waitForReadiness net url MAX_TIMEOUT)) \<subseteq> readiness_events url"
  unfolding waitForReadiness_def
  by (rule readiness_poll_log) (simp add: start_def readiness_events_def)

lemma readiness_tick_appends:
  "\<exists>ext. log (readiness_tick net url MAX_TIMEOUT s) = log s @ ext"
  by (auto simp: readiness_tick_def clearInterval_def emit_def Let_def
           split: fetched.splits option.splits)

lemma readiness_poll_appends:
  "\<exists>ext. log (readiness_poll b net url MAX_TIMEOUT s) = log s @ ext"
proof (induction b net url MAX_TIMEOUT s rule: readiness_poll.induct)
  case (1 b net url MAX_TIMEOUT s)
  show ?case
  proof (cases "armed s \<and> (if b then settled s = Pending else True)")
    case True
    from "1.IH"[OF True] obtain e1 where
      e1: "log (readiness_poll b net url MAX_TIMEOUT (readiness_tick net url MAX_TIMEOUT s)) =
           log (readiness_tick net url MAX_TIMEOUT s) @ e1" by blast
    from readiness_tick_appends obtain e0 where
      e0: "log (readiness_tick net url MAX_TIMEOUT s) = log s @ e0" by blast
    have "readiness_poll b net url MAX_TIMEOUT s =
          readiness_poll b net url MAX_TIMEOUT (readiness_tick net url MAX_TIMEOUT s)"
      using True by (subst readiness_poll.simps) simp
    then show ?thesis using e0 e1 by simp
  next
    case False
    then show ?thesis by (subst readiness_poll.simps) auto
  qed
qed

lemma readiness_first_poll:
  assumes "30 < MAX_TIMEOUT"
  shows "\<exists>rest. log (waitForReadiness net url MAX_TIMEOUT) =
           SetInterval 30000 # NetlifyGet url # rest"
proof -
  let ?t = "readiness_tick net url MAX_TIMEOUT (start 30)"
  have "\<exists>e. log ?t = [SetInterval 30000, NetlifyGet url] @ e"
    using assms
    by (auto simp: readiness_tick_def clearInterval_def emit_def start_def Let_def
             split: fetched.splits option.splits)
  then obtain e where e: "log ?t = [SetInterval 30000, NetlifyGet url] @ e" by blast
  obtain e' where e': "log (readiness_poll True net url MAX_TIMEOUT ?t) = log ?t @ e'"
    using readiness_poll_appends by blast
  have "waitForReadiness net url MAX_TIMEOUT = readiness_poll True net url MAX_TIMEOUT ?t"
    unfolding waitForReadiness_def
    by (subst readiness_poll.simps) (simp add: start_def)
  then show ?thesis using e e' by simp
qed

lemma loop_trace:
  "\<exists>ext. trace (snd (waitForUrl_loop pages url iterations flag i s)) = trace s @ ext
         \<and> set ext \<subseteq> prober_events url"
proof (induction pages url iterations flag i s rule: waitForUrl_loop.induct)
  case (1 pages url iterations flag i s)
  show ?case
  proof (cases "of_nat i < iterations")
    case False
    then show ?thesis
      by (subst waitForUrl_loop.simps) (simp add: say_def prober_events_def)
  next
    case inside: True
    let ?got = "axios_get pages url s"
    have got: "trace (snd ?got) = trace s @ [AxiosGet url]"
      by (simp add: axios_get_def say_def)
    show ?thesis
    proof (cases "fst ?got")
      case (Resolves r)
      with inside got show ?thesis
        by (subst waitForUrl_loop.simps) (simp add: prober_events_def)
    next
      case (Rejects e)
      show ?thesis
      proof (cases flag)
        case True
        with inside got Rejects show ?thesis
          by (subst waitForUrl_loop.simps) (simp add: prober_events_def)
      next
        case False
        let ?s' = "say (Sleep 3000)
               (say (ConsoleLog (''URL '' @ url @ '' unavailable, retrying...'')) (snd ?got))"
        from "1.IH"[OF inside refl Rejects False] obtain ext where
          ext: "trace (snd (waitForUrl_loop pages url iterations flag (i + 1) ?s')) = trace ?s' @ ext"
            "set ext \<subseteq> prober_events url" by blast
        have "waitForUrl_loop pages url iterations flag i s =
              waitForUrl_loop pages url iterations flag (i + 1) ?s'"
          using inside Rejects False by (subst waitForUrl_loop.simps) simp
        moreover have "trace ?s' = trace s @ [AxiosGet url,
            ConsoleLog (''URL '' @ url @ '' unavailable, retrying...''), Sleep 3000]"
          using got by (simp add: say_def)
        ultimately show ?thesis
          using ext by (simp add: prober_events_def)
      qed
    qed
  qed
qed

lemma waitForUrl_trace:
  "\<exists>ext. trace (snd (waitForUrl pages url MAX_TIMEOUT flag s)) = trace s @ ext
         \<and> set ext \<subseteq> prober_events url"
  using loop_trace[of pages url "of_int MAX_TIMEOUT / 3" flag 0 "s\<lparr>interceptors := interceptors s + 1\<rparr>"]
  by (simp add: waitForUrl_def)

lemma quiet_creation:
  assumes "set xs \<subseteq> creation_events u"
  shows "filter is_probe xs = []" and "filter is_output xs = []" and "filter is_failure xs = []"
  using assms by (auto simp: filter_empty_conv creation_events_def)

lemma quiet_readiness:
  assumes "set xs \<subseteq> readiness_events u"
  shows "filter is_output xs = []"
  using assms by (auto simp: filter_empty_conv readiness_events_def)

lemma quiet_prober:
  assumes "set xs \<subseteq> prober_events u"
  shows "filter is_output xs = []"
  using assms by (auto simp: filter_empty_conv prober_events_def)

lemma quiet_configuration:
  "filter is_output (check_configuration c) = []"
  "filter is_probe (check_configuration c) = []"
  "filter is_failure (check_configuration c) = check_configuration c"
  by (simp_all add: check_configuration_def)

lemma endpoints_differ: "listing_url siteId \<noteq> deploy_url siteId ident"
  by (simp add: listing_url_def deploy_url_def)

lemma creation_never_polls_deployment:
  assumes "set xs \<subseteq> creation_events (listing_url siteId)"
  shows "NetlifyGet (deploy_url siteId ident) \<notin> set xs" and "SetInterval 30000 \<notin> set xs"
  using assms endpoints_differ[of siteId ident] by (auto simp: creation_events_def)

lemma configuration_never_polls:
  "NetlifyGet u \<notin> set (check_configuration c)" "SetInterval n \<notin> set (check_configuration c)"
  by (simp_all add: check_configuration_def)

section \<open>The steps of the orchestrator\<close>

lemma publish_and_wait_trace:
  "\<exists>rest. trace (snd (publish_and_wait w c d url s)) =
     trace s
     @ [SetOutput ''deploy_id'' (JStr (deploy_id d)), SetOutput ''url'' (JStr url),
        ConsoleLog (''Waiting for Netlify deployment '' @ deploy_id d @ '' in site '' @ name d
          @ '' to be ready'')]
     @ log (readied w c d) @ rest
     \<and> filter is_output rest = []
     \<and> fst (publish_and_wait w c d url s) \<noteq> Skipped"
proof (cases "settled (readied w c d)")
  case Pending
  then show ?thesis
    by (simp add: publish_and_wait_def Let_def readied_def[symmetric] say_def)
next
  case (Rejected m)
  then show ?thesis
    by (simp add: publish_and_wait_def Let_def readied_def[symmetric] say_def catch_def)
next
  case (Fulfilled u)
  let ?s5 = "\<lparr>trace = trace s
     @ [SetOutput ''deploy_id'' (JStr (deploy_id d)), SetOutput ''url'' (JStr url),
        ConsoleLog (''Waiting for Netlify deployment '' @ deploy_id d @ '' in site '' @ name d
          @ '' to be ready'')]
     @ log (readied w c d) @ [ConsoleLog (''Waiting for a 200 or 401 from: '' @ url)],
     requests = requests s, interceptors = interceptors s\<rparr>"
  obtain ext where ext:
    "trace (snd (waitForUrl (site_responses w) url (MAX_READY_TIMEOUT c) False ?s5)) =
     trace ?s5 @ ext" "filter is_output ext = []"
    using waitForUrl_trace quiet_prober by blast
  have s5: "say (ConsoleLog (''Waiting for a 200 or 401 from: '' @ url))
       (say (ConsoleLog (''Waiting for Netlify deployment '' @ deploy_id d @ '' in site ''
                @ name d @ '' to be ready''))
          (say (SetOutput ''url'' (JStr url))
             (say (SetOutput ''deploy_id'' (JStr (deploy_id d))) s))
        \<lparr>trace := trace (say (ConsoleLog (''Waiting for Netlify deployment '' @ deploy_id d
                @ '' in site '' @ name d @ '' to be ready''))
          (say (SetOutput ''url'' (JStr url))
             (say (SetOutput ''deploy_id'' (JStr (deploy_id d))) s))) @ log (readied w c d)\<rparr>)
      = ?s5"
    by (simp add: say_def)
  show ?thesis
  proof (cases "fst (waitForUrl (site_responses w) url (MAX_READY_TIMEOUT c) False ?s5)")
    case Returned
    with Fulfilled ext show ?thesis
      unfolding publish_and_wait_def Let_def readied_def[symmetric] s5
      by simp
  next
    case (Throws e)
    with Fulfilled ext show ?thesis
      unfolding publish_and_wait_def Let_def readied_def[symmetric] s5
      by (simp add: catch_def say_def)
  qed
qed

lemma catch_outputs:
  "fst (catch e s) = Caught" "filter is_output (trace (snd (catch e s))) = filter is_output (trace s)"
  by (simp_all add: catch_def say_def)

lemma publish_and_wait_outputs:
  "filter is_output (trace (snd (publish_and_wait w c d url s))) =
     filter is_output (trace s)
     @ [SetOutput ''deploy_id'' (JStr (deploy_id d)), SetOutput ''url'' (JStr url)]"
proof -
  have ev: "set (log (readied w c d)) \<subseteq> readiness_events (deploy_url (site_id c) (deploy_id d))"
    unfolding readied_def by (rule readiness_log_events)
  obtain rest where "trace (snd (publish_and_wait w c d url s)) =
     trace s
     @ [SetOutput ''deploy_id'' (JStr (deploy_id d)), SetOutput ''url'' (JStr url),
        ConsoleLog (''Waiting for Netlify deployment '' @ deploy_id d @ '' in site '' @ name d
          @ '' to be ready'')]
     @ log (readied w c d) @ rest" and "filter is_output rest = []"
    using publish_and_wait_trace[of w c d url s] by blast
  then show ?thesis
    by (simp add: quiet_readiness[OF ev])
qed

lemma waitForUrl_outputs:
  "filter is_output (trace (snd (waitForUrl pages url MAX_TIMEOUT flag s))) =
   filter is_output (trace s)"
proof -
  obtain ext where "trace (snd (waitForUrl pages url MAX_TIMEOUT flag s)) = trace s @ ext"
    and "filter is_output ext = []"
    using waitForUrl_trace quiet_prober by blast
  then show ?thesis by simp
qed

lemma publish_and_wait_not_skipped: "fst (publish_and_wait w c d url s) \<noteq> Skipped"
  using publish_and_wait_trace[of w c d url s] by blast

lemma creation_outputs:
  "filter is_output (log (waitForDeployCreation net url commitSha MAX_TIMEOUT)) = []"
  by (rule quiet_creation(2)[OF creation_log_events])

lemma readiness_reports_no_failure:
  "filter is_failure (log (waitForReadiness net url MAX_TIMEOUT)) = []"
  using readiness_log_events[of net url MAX_TIMEOUT]
  by (auto simp: filter_empty_conv readiness_events_def)

lemma retries_report_no_failure:
  "filter is_failure (concat (replicate n (retry_events url))) = []"
  by (induction n) (simp_all add: retry_events_def)

lemma publish_and_wait_exhausted:
  assumes "settled (readied w c d) = Fulfilled ()"
    and "\<forall>j < nat \<lceil>rat_of_int (MAX_READY_TIMEOUT c) / 3\<rceil>.
           probe_fails (site_responses w) url (requests s + j)"
  shows "publish_and_wait w c d url s =
     (Finished,
      \<lparr>trace = trace s
         @ [SetOutput ''deploy_id'' (JStr (deploy_id d)), SetOutput ''url'' (JStr url),
            ConsoleLog (''Waiting for Netlify deployment '' @ deploy_id d @ '' in site ''
              @ name d @ '' to be ready'')]
         @ log (readied w c d)
         @ [ConsoleLog (''Waiting for a 200 or 401 from: '' @ url)]
         @ concat (replicate (nat \<lceil>rat_of_int (MAX_READY_TIMEOUT c) / 3\<rceil>) (retry_events url))
         @ [SetFailed (''Timeout reached: Unable to connect to '' @ url)],
       requests = requests s + nat \<lceil>rat_of_int (MAX_READY_TIMEOUT c) / 3\<rceil>,
       interceptors = interceptors s + 1\<rparr>)"
proof -
  let ?s5 = "\<lparr>trace = trace s
     @ [SetOutput ''deploy_id'' (JStr (deploy_id d)), SetOutput ''url'' (JStr url),
        ConsoleLog (''Waiting for Netlify deployment '' @ deploy_id d @ '' in site '' @ name d
          @ '' to be ready'')]
     @ log (readied w c d) @ [ConsoleLog (''Waiting for a 200 or 401 from: '' @ url)],
     requests = requests s, interceptors = interceptors s\<rparr>"
  have s5: "say (ConsoleLog (''Waiting for a 200 or 401 from: '' @ url))
       (say (ConsoleLog (''Waiting for Netlify deployment '' @ deploy_id d @ '' in site ''
                @ name d @ '' to be ready''))
          (say (SetOutput ''url'' (JStr url))
             (say (SetOutput ''deploy_id'' (JStr (deploy_id d))) s))
        \<lparr>trace := trace (say (ConsoleLog (''Waiting for Netlify deployment '' @ deploy_id d
                @ '' in site '' @ name d @ '' to be ready''))
          (say (SetOutput ''url'' (JStr url))
             (say (SetOutput ''deploy_id'' (JStr (deploy_id d))) s))) @ log (readied w c d)\<rparr>)
      = ?s5"
    by (simp add: say_def)
  have probed: "waitForUrl (site_responses w) url (MAX_READY_TIMEOUT c) False ?s5 =
         (Returned,
          ?s5\<lparr>interceptors := interceptors ?s5 + 1,
            requests := requests ?s5 + nat \<lceil>rat_of_int (MAX_READY_TIMEOUT c) / 3\<rceil>,
            trace := trace ?s5
              @ concat (replicate (nat \<lceil>rat_of_int (MAX_READY_TIMEOUT c) / 3\<rceil>) (retry_events url))
              @ [SetFailed (''Timeout reached: Unable to connect to '' @ url)]\<rparr>)"
    by (rule waitForUrl_exhausted) (use assms(2) in simp)
  show ?thesis
    unfolding publish_and_wait_def Let_def readied_def[symmetric] s5 probed
    using assms(1) by simp
qed

text \<open>The single probe of the fallback URL, and which runs leave by the no-preview return.\<close>

lemma fallback_probe_fails:
  assumes "probe_fails pages url 0"
  shows "waitForUrl pages url 3 True \<lparr>trace = t, requests = 0, interceptors = 0\<rparr> =
         (Throws (Str ''not found''),
          \<lparr>trace = t @ [AxiosGet url], requests = 1, interceptors = 1\<rparr>)"
  using assms waitForUrl_single_attempt[of 3 pages url
      "\<lparr>trace = t, requests = 0, interceptors = 0\<rparr>"]
  by simp

lemma fallback_probe_succeeds:
  assumes "\<not> probe_fails pages url 0"
  shows "waitForUrl pages url 3 True \<lparr>trace = t, requests = 0, interceptors = 0\<rparr> =
         (Returned, \<lparr>trace = t @ [AxiosGet url], requests = 1, interceptors = 1\<rparr>)"
  using assms waitForUrl_success[of 3 pages url
      "\<lparr>trace = t, requests = 0, interceptors = 0\<rparr>" True]
  by simp

lemma run_outputs_by_exit:
  "(fst (run w c) = Skipped \<and>
        filter is_output (trace (snd (run w c))) = [SetOutput ''nopreview'' (JNum 1)])
     \<or> (fst (run w c) \<noteq> Skipped \<and>
        (filter is_output (trace (snd (run w c))) = []
         \<or> (\<exists>i u. filter is_output (trace (snd (run w c))) =
               [SetOutput ''deploy_id'' i, SetOutput ''url'' u])))"
  by (simp add: run_def Let_def say_def catch_def waitForUrl_outputs
        publish_and_wait_outputs publish_and_wait_not_skipped creation_outputs
        quiet_configuration
        split: promise.splits outcome.splits)

lemma skipped_iff_fallback_probe_failed:
  "fst (run w c) = Skipped \<longleftrightarrow>
   (\<exists>d. settled (created w c) = Fulfilled d \<and> state d = ''error''
        \<and> matcher_test (error_message d)
        \<and> probe_fails (site_responses w) (deploy_ssl_url d) 0)"
proof (cases "settled (created w c)")
  case Pending
  then show ?thesis
    by (simp add: run_def Let_def created_def[symmetric])
next
  case (Rejected m)
  then show ?thesis
    by (simp add: run_def Let_def created_def[symmetric] catch_def)
next
  case (Fulfilled d)
  show ?thesis
  proof (cases "state d = ''error''")
    case False
    with Fulfilled show ?thesis
      by (simp add: run_def Let_def created_def[symmetric] publish_and_wait_not_skipped)
  next
    case error: True
    show ?thesis
    proof (cases "matcher_test (error_message d)")
      case False
      with Fulfilled error show ?thesis
        by (simp add: run_def Let_def created_def[symmetric] catch_def)
    next
      case phrase: True
      show ?thesis
      proof (cases "probe_fails (site_responses w) (deploy_ssl_url d) 0")
        case True
        with Fulfilled error phrase show ?thesis
          by (simp add: run_def Let_def created_def[symmetric] say_def fallback_probe_fails)
      next
        case False
        with Fulfilled error phrase show ?thesis
          by (simp add: run_def Let_def created_def[symmetric] say_def
                fallback_probe_succeeds publish_and_wait_not_skipped)
      qed
    qed
  qed
qed

section \<open>Every wait settles\<close>

lemma reject_settles: "reject m p \<noteq> Pending"
  by (cases p) simp_all

lemma resolve_settles: "resolve v p \<noteq> Pending"
  by (cases p) simp_all

lemma creation_tick_live:
  "armed s \<Longrightarrow> armed (creation_tick net url commitSha MAX_TIMEOUT s)
     \<or> settled (creation_tick net url commitSha MAX_TIMEOUT s) \<noteq> Pending"
  by (auto simp: creation_tick_def clearInterval_def emit_def Let_def reject_settles
        resolve_settles split: fetched.splits option.splits)

lemma creation_poll_settles:
  "armed s \<or> settled s \<noteq> Pending \<Longrightarrow>
   settled (creation_poll True net url commitSha MAX_TIMEOUT s) \<noteq> Pending"
proof (induction "True" net url commitSha MAX_TIMEOUT s rule: creation_poll.induct)
  case (1 net url commitSha MAX_TIMEOUT s)
  show ?case
  proof (cases "armed s \<and> settled s = Pending")
    case True
    then have "armed (creation_tick net url commitSha MAX_TIMEOUT s)
       \<or> settled (creation_tick net url commitSha MAX_TIMEOUT s) \<noteq> Pending"
      using creation_tick_live by blast
    with "1.hyps" True show ?thesis
      by (subst creation_poll.simps) simp
  next
    case False
    with "1.prems" show ?thesis
      by (subst creation_poll.simps) auto
  qed
qed

lemma creation_always_settles:
  "settled (waitForDeployCreation net url commitSha MAX_TIMEOUT) \<noteq> Pending"
  unfolding waitForDeployCreation_def
  by (rule creation_poll_settles) (simp add: start_def)

lemma readiness_tick_live:
  "armed s \<Longrightarrow> armed (readiness_tick net url MAX_TIMEOUT s)
     \<or> settled (readiness_tick net url MAX_TIMEOUT s) \<noteq> Pending"
  by (auto simp: readiness_tick_def clearInterval_def emit_def Let_def reject_settles
        resolve_settles split: fetched.splits option.splits)

lemma readiness_poll_settles:
  "armed s \<or> settled s \<noteq> Pending \<Longrightarrow>
   settled (readiness_poll True net url MAX_TIMEOUT s) \<noteq> Pending"
proof (induction "True" net url MAX_TIMEOUT s rule: readiness_poll.induct)
  case (1 net url MAX_TIMEOUT s)
  show ?case
  proof (cases "armed s \<and> settled s = Pending")
    case True
    then have "armed (readiness_tick net url MAX_TIMEOUT s)
       \<or> settled (readiness_tick net url MAX_TIMEOUT s) \<noteq> Pending"
      using readiness_tick_live by blast
    with "1.hyps" True show ?thesis
      by (subst readiness_poll.simps) simp
  next
    case False
    with "1.prems" show ?thesis
      by (subst readiness_poll.simps) auto
  qed
qed

lemma readiness_always_settles:
  "settled (waitForReadiness net url MAX_TIMEOUT) \<noteq> Pending"
  unfolding waitForReadiness_def
  by (rule readiness_poll_settles) (simp add: start_def)

lemma publish_and_wait_never_hangs: "fst (publish_and_wait w c d url s) \<noteq> Hung"
  using readiness_always_settles[of "deploy_responses w" "deploy_url (site_id c) (deploy_id d)"
      MAX_WAIT_TIMEOUT]
  by (simp add: publish_and_wait_def Let_def catch_def split: promise.splits outcome.splits)

lemma run_never_hangs: "fst (run w c) \<noteq> Hung"
  using creation_always_settles[of "listing_responses w" "listing_url (site_id c)"
      "commitSha_of c" MAX_CREATE_TIMEOUT]
  by (simp add: run_def Let_def catch_def publish_and_wait_never_hangs
        split: promise.splits outcome.splits)

section \<open>The scenarios, evaluated\<close>

lemma ready_in_scenario: "settled (readied (world_of built unreachable) push_inputs built) = Fulfilled ()"
  by code_simp


lemma created_skipped:
  "settled (created (world_of skipped_build pages) push_inputs) = Fulfilled skipped_build"
  by code_simp

lemma created_failed:
  "settled (created (world_of failed_build pages) push_inputs) = Fulfilled failed_build"
  by code_simp

lemma skip_phrase: "matcher_test (error_message skipped_build)"
  by code_simp

lemma not_skip_phrase: "\<not> matcher_test (Some ''build script failed'')"
  by code_simp

section \<open>Properties of the waiters\<close>

text \<open>
  C1: on every exit of a waiter's poll session (resolving, rejecting because the listing
  is missing, rejecting on timeout) the repeating timer is cancelled, so that no tick
  runs after the wrapping promise has settled.

  The creation waiter does not do this on the exit of line 34. With a budget of 300
  and a listing request that resolves without data, the promise is rejected with the
  not-found message at the first tick after one request, the timer is still armed at
  that moment, and it goes on firing: 19 requests in all are issued before the tick at
  300 seconds cancels it. The two other exits (lines 25 and 42) call
  \<^verbatim>\<open>clearInterval\<close>.
\<close>

theorem not_found_exit_leaves_timer_armed:
  "settled (waitForDeployCreation (\<lambda>n. Response None) ''https://api.netlify.com/api/v1/sites/site1/deploys'' ''abc123'' 300)
     = Rejected ''Failed to get deployments for site''
   \<and> armed (waitForDeployCreation (\<lambda>n. Response None) ''https://api.netlify.com/api/v1/sites/site1/deploys'' ''abc123'' 300)
   \<and> fetches (waitForDeployCreation (\<lambda>n. Response None) ''https://api.netlify.com/api/v1/sites/site1/deploys'' ''abc123'' 300) = 1
   \<and> fetches (creation_timer_lifetime (\<lambda>n. Response None) ''https://api.netlify.com/api/v1/sites/site1/deploys'' ''abc123'' 300) = 19"
  by code_simp

text \<open>
  C4: the creation waiter polls every 15 seconds. When the listing fetched at some
  tick before the budget is reached holds a record whose commit reference is the target
  (and no earlier listing does), the waiter resolves with that record, the first such
  one of that listing, and cancels its timer. When no listing fetched before the budget
  is reached holds such a record, the waiter rejects with the timeout message that states
  the budget, cancels its timer and never resolves. The tick at which the budget is
  reached issues no request: the number of requests is the number of ticks before it,
  whatever a later listing would hold.
\<close>

theorem creation_waiter_contract:
  "(find (\<lambda>d. commit_ref d = Some commitSha) (ls k) = Some d
      \<and> (\<forall>j<k. find (\<lambda>d. commit_ref d = Some commitSha) (ls j) = None)
      \<and> 15 * (int k + 1) < MAX_TIMEOUT
    \<longrightarrow> waitForDeployCreation (\<lambda>j. Response (Some (ls j))) url commitSha MAX_TIMEOUT =
          \<lparr>elapsedTimeSeconds = 15 * (int k + 1), armed = False, settled = Fulfilled d,
           state_var = None, fetches = k + 1,
           log = SetInterval 15000
             # concat (replicate k [NetlifyGet url,
                 ConsoleLog ''Not yet created, waiting 15 more seconds...''])
             @ [NetlifyGet url, ClearInterval]\<rparr>)
   \<and> ((\<forall>j. 15 * (int j + 1) < MAX_TIMEOUT \<longrightarrow>
           find (\<lambda>d. commit_ref d = Some commitSha) (ls j) = None)
    \<longrightarrow> waitForDeployCreation (\<lambda>j. Response (Some (ls j))) url commitSha MAX_TIMEOUT =
          \<lparr>elapsedTimeSeconds = 15 * (int (polls_before_timeout 15 MAX_TIMEOUT) + 1),
           armed = False,
           settled = Rejected (''Timeout reached: Deployment was not created within ''
             @ string_of_int MAX_TIMEOUT @ '' seconds.''),
           state_var = None, fetches = polls_before_timeout 15 MAX_TIMEOUT,
           log = SetInterval 15000
             # concat (replicate (polls_before_timeout 15 MAX_TIMEOUT) [NetlifyGet url,
                 ConsoleLog ''Not yet created, waiting 15 more seconds...''])
             @ [ClearInterval]\<rparr>)"
proof (intro conjI impI)
  assume a: "find (\<lambda>d. commit_ref d = Some commitSha) (ls k) = Some d
      \<and> (\<forall>j<k. find (\<lambda>d. commit_ref d = Some commitSha) (ls j) = None)
      \<and> 15 * (int k + 1) < MAX_TIMEOUT"
  have "creation_poll True (\<lambda>j. Response (Some (ls j))) url commitSha MAX_TIMEOUT (start 15) =
        (start 15)\<lparr>elapsedTimeSeconds := elapsedTimeSeconds (start 15) + 15 * (int k + 1),
           fetches := fetches (start 15) + k + 1, armed := False, settled := Fulfilled d,
           log := log (start 15)
             @ concat (replicate k [NetlifyGet url,
                 ConsoleLog ''Not yet created, waiting 15 more seconds...''])
             @ [NetlifyGet url, ClearInterval]\<rparr>"
    using a creation_poll_found[where s = "start 15" and k = k and ls = ls and d = d and commitSha = commitSha and MAX_TIMEOUT = MAX_TIMEOUT and b = True and url = url] by (simp add: start_def)
  then show "waitForDeployCreation (\<lambda>j. Response (Some (ls j))) url commitSha MAX_TIMEOUT =
          \<lparr>elapsedTimeSeconds = 15 * (int k + 1), armed = False, settled = Fulfilled d,
           state_var = None, fetches = k + 1,
           log = SetInterval 15000
             # concat (replicate k [NetlifyGet url,
                 ConsoleLog ''Not yet created, waiting 15 more seconds...''])
             @ [NetlifyGet url, ClearInterval]\<rparr>"
    by (simp add: waitForDeployCreation_def start_def)
next
  let ?n = "polls_before_timeout 15 MAX_TIMEOUT"
  assume a: "\<forall>j. 15 * (int j + 1) < MAX_TIMEOUT \<longrightarrow>
           find (\<lambda>d. commit_ref d = Some commitSha) (ls j) = None"
  have "creation_poll True (\<lambda>j. Response (Some (ls j))) url commitSha MAX_TIMEOUT (start 15) =
         (start 15)\<lparr>elapsedTimeSeconds := elapsedTimeSeconds (start 15) + 15 * (int ?n + 1),
           fetches := fetches (start 15) + ?n, armed := False,
           settled := Rejected (creation_timeout_message MAX_TIMEOUT),
           log := log (start 15)
             @ concat (replicate ?n [NetlifyGet url,
                 ConsoleLog ''Not yet created, waiting 15 more seconds...''])
             @ [ClearInterval]\<rparr>"
    using a creation_poll_timeout[where s = "start 15" and n = "polls_before_timeout 15 MAX_TIMEOUT" and ls = ls and commitSha = commitSha and MAX_TIMEOUT = MAX_TIMEOUT and b = True and url = url] by (simp add: start_def)
  then show "waitForDeployCreation (\<lambda>j. Response (Some (ls j))) url commitSha MAX_TIMEOUT =
          \<lparr>elapsedTimeSeconds = 15 * (int ?n + 1),
           armed = False,
           settled = Rejected (''Timeout reached: Deployment was not created within ''
             @ string_of_int MAX_TIMEOUT @ '' seconds.''),
           state_var = None, fetches = ?n,
           log = SetInterval 15000
             # concat (replicate ?n [NetlifyGet url,
                 ConsoleLog ''Not yet created, waiting 15 more seconds...''])
             @ [ClearInterval]\<rparr>"
    by (simp add: waitForDeployCreation_def start_def creation_timeout_message_def)
qed

theorem creation_waiter_contract_witness:
  "settled (waitForDeployCreation (\<lambda>j. Response (Some (appears_at_third_poll j))) ''u'' ''abc123'' 300)
     = Fulfilled built
   \<and> fetches (waitForDeployCreation (\<lambda>j. Response (Some (appears_at_third_poll j))) ''u'' ''abc123'' 300) = 3
   \<and> settled (waitForDeployCreation (\<lambda>j. Response (Some (never_appears j))) ''u'' ''abc123'' 300)
     = Rejected ''Timeout reached: Deployment was not created within 300 seconds.''
   \<and> fetches (waitForDeployCreation (\<lambda>j. Response (Some (never_appears j))) ''u'' ''abc123'' 300) = 19
   \<and> settled (waitForDeployCreation (\<lambda>j. Response (Some (appears_too_late j))) ''u'' ''abc123'' 300)
     = Rejected ''Timeout reached: Deployment was not created within 300 seconds.''"
proof -
  have h3: "\<forall>j. 15 * (int j + 1) < 300 \<longrightarrow>
           find (\<lambda>d. commit_ref d = Some ''abc123'') (appears_too_late j) = None"
    by (simp add: appears_too_late_def built_def earlier_def)
  have h1: "find (\<lambda>d. commit_ref d = Some ''abc123'') (appears_at_third_poll 2) = Some built
      \<and> (\<forall>j<2. find (\<lambda>d. commit_ref d = Some ''abc123'') (appears_at_third_poll j) = None)
      \<and> 15 * (int 2 + 1) < 300"
    by (simp add: below_two appears_at_third_poll_def built_def earlier_def)
  have h2: "\<forall>j. 15 * (int j + 1) < 300 \<longrightarrow>
           find (\<lambda>d. commit_ref d = Some ''abc123'') (never_appears j) = None"
    by (simp add: never_appears_def built_def earlier_def)
  have s: "string_of_int 300 = ''300''" by code_simp
  have p: "polls_before_timeout 15 300 = 19" by (simp add: polls_before_timeout_def)
  from creation_waiter_contract[of "''abc123''" appears_at_third_poll 2 built 300 "''u''"] h1
    creation_waiter_contract[of "''abc123''" never_appears 2 built 300 "''u''"] h2
    creation_waiter_contract[of "''abc123''" appears_too_late 2 built 300 "''u''"] h3
  show ?thesis by (simp add: s p)
qed


text \<open>
  C5: the readiness waiter polls every 30 seconds. It resolves, with no payload, at the
  first tick before the budget is reached whose fetched record has a state among ready,
  current and error, and cancels its timer; it resolves in no other case. When no
  record fetched before the budget is reached has such a state, it rejects with the
  timeout message, which names the budget and the last state observed, or the word
  undefined when the budget was reached before any request.
\<close>

theorem readiness_waiter_contract:
  "(state (ds k) \<in> {''ready'', ''current'', ''error''}
      \<and> (\<forall>j<k. state (ds j) \<notin> {''ready'', ''current'', ''error''})
      \<and> 30 * (int k + 1) < MAX_TIMEOUT
    \<longrightarrow> waitForReadiness (\<lambda>j. Response (Some (ds j))) url MAX_TIMEOUT =
          \<lparr>elapsedTimeSeconds = 30 * (int k + 1), armed = False, settled = Fulfilled (),
           state_var = Some (state (ds k)), fetches = k + 1,
           log = SetInterval 30000
             # concat (replicate k [NetlifyGet url,
                 ConsoleLog ''Not yet ready, waiting 30 more seconds...''])
             @ [NetlifyGet url, ClearInterval]\<rparr>)
   \<and> ((\<forall>j. 30 * (int j + 1) < MAX_TIMEOUT \<longrightarrow>
           state (ds j) \<notin> {''ready'', ''current'', ''error''})
    \<longrightarrow> waitForReadiness (\<lambda>j. Response (Some (ds j))) url MAX_TIMEOUT =
          \<lparr>elapsedTimeSeconds = 30 * (int (polls_before_timeout 30 MAX_TIMEOUT) + 1),
           armed = False,
           settled = Rejected (''Timeout reached: Deployment was not ready within ''
             @ string_of_int MAX_TIMEOUT @ '' seconds. Last known deployment state: ''
             @ (if polls_before_timeout 30 MAX_TIMEOUT = 0 then ''undefined''
                else state (ds (polls_before_timeout 30 MAX_TIMEOUT - 1))) @ ''.''),
           state_var = (if polls_before_timeout 30 MAX_TIMEOUT = 0 then None
                else Some (state (ds (polls_before_timeout 30 MAX_TIMEOUT - 1)))),
           fetches = polls_before_timeout 30 MAX_TIMEOUT,
           log = SetInterval 30000
             # concat (replicate (polls_before_timeout 30 MAX_TIMEOUT) [NetlifyGet url,
                 ConsoleLog ''Not yet ready, waiting 30 more seconds...''])
             @ [ClearInterval]\<rparr>)"
proof (intro conjI impI)
  assume a: "state (ds k) \<in> {''ready'', ''current'', ''error''}
      \<and> (\<forall>j<k. state (ds j) \<notin> {''ready'', ''current'', ''error''})
      \<and> 30 * (int k + 1) < MAX_TIMEOUT"
  have "readiness_poll True (\<lambda>j. Response (Some (ds j))) url MAX_TIMEOUT (start 30) =
         (start 30)\<lparr>elapsedTimeSeconds := elapsedTimeSeconds (start 30) + 30 * (int k + 1),
           fetches := fetches (start 30) + k + 1, armed := False, settled := Fulfilled (),
           state_var := Some (state (ds (fetches (start 30) + k))),
           log := log (start 30)
             @ concat (replicate k [NetlifyGet url,
                 ConsoleLog ''Not yet ready, waiting 30 more seconds...''])
             @ [NetlifyGet url, ClearInterval]\<rparr>"
    using a readiness_poll_ready[where s = "start 30" and k = k and ds = ds
        and MAX_TIMEOUT = MAX_TIMEOUT and b = True and url = url]
    by (simp add: start_def READY_STATES_def)
  then show "waitForReadiness (\<lambda>j. Response (Some (ds j))) url MAX_TIMEOUT =
          \<lparr>elapsedTimeSeconds = 30 * (int k + 1), armed = False, settled = Fulfilled (),
           state_var = Some (state (ds k)), fetches = k + 1,
           log = SetInterval 30000
             # concat (replicate k [NetlifyGet url,
                 ConsoleLog ''Not yet ready, waiting 30 more seconds...''])
             @ [NetlifyGet url, ClearInterval]\<rparr>"
    by (simp add: waitForReadiness_def start_def)
next
  let ?n = "polls_before_timeout 30 MAX_TIMEOUT"
  let ?last = "if ?n = 0 then None else Some (state (ds (?n - 1)))"
  assume a: "\<forall>j. 30 * (int j + 1) < MAX_TIMEOUT \<longrightarrow>
           state (ds j) \<notin> {''ready'', ''current'', ''error''}"
  have "readiness_poll True (\<lambda>j. Response (Some (ds j))) url MAX_TIMEOUT (start 30) =
         (start 30)\<lparr>elapsedTimeSeconds := elapsedTimeSeconds (start 30) + 30 * (int ?n + 1),
           fetches := fetches (start 30) + ?n, armed := False,
           state_var := (if ?n = 0 then state_var (start 30)
              else Some (state (ds (fetches (start 30) + ?n - 1)))),
           settled := Rejected (readiness_timeout_message MAX_TIMEOUT
             (if ?n = 0 then state_var (start 30)
              else Some (state (ds (fetches (start 30) + ?n - 1))))),
           log := log (start 30)
             @ concat (replicate ?n [NetlifyGet url,
                 ConsoleLog ''Not yet ready, waiting 30 more seconds...''])
             @ [ClearInterval]\<rparr>"
    using a readiness_poll_timeout[where s = "start 30" and n = ?n and ds = ds
        and MAX_TIMEOUT = MAX_TIMEOUT and b = True and url = url]
    by (simp add: start_def READY_STATES_def)
  then show "waitForReadiness (\<lambda>j. Response (Some (ds j))) url MAX_TIMEOUT =
          \<lparr>elapsedTimeSeconds = 30 * (int ?n + 1),
           armed = False,
           settled = Rejected (''Timeout reached: Deployment was not ready within ''
             @ string_of_int MAX_TIMEOUT @ '' seconds. Last known deployment state: ''
             @ (if ?n = 0 then ''undefined'' else state (ds (?n - 1))) @ ''.''),
           state_var = (if ?n = 0 then None else Some (state (ds (?n - 1)))),
           fetches = ?n,
           log = SetInterval 30000
             # concat (replicate ?n [NetlifyGet url,
                 ConsoleLog ''Not yet ready, waiting 30 more seconds...''])
             @ [ClearInterval]\<rparr>"
    by (cases "?n = 0")
      (simp_all add: waitForReadiness_def start_def readiness_timeout_message_def template_def)
qed

theorem readiness_waiter_contract_witness:
  "settled (waitForReadiness (\<lambda>j. Response (Some (ready_at_third_poll j))) ''u'' 900) = Fulfilled ()
   \<and> fetches (waitForReadiness (\<lambda>j. Response (Some (ready_at_third_poll j))) ''u'' 900) = 3
   \<and> settled (waitForReadiness (\<lambda>j. Response (Some (always_building j))) ''u'' 95)
     = Rejected ''Timeout reached: Deployment was not ready within 95 seconds. Last known deployment state: building.''
   \<and> settled (waitForReadiness (\<lambda>j. Response (Some (always_building j))) ''u'' 30)
     = Rejected ''Timeout reached: Deployment was not ready within 30 seconds. Last known deployment state: undefined.''"
proof -
  have h1: "state (ready_at_third_poll 2) \<in> {''ready'', ''current'', ''error''}
      \<and> (\<forall>j<2. state (ready_at_third_poll j) \<notin> {''ready'', ''current'', ''error''})
      \<and> 30 * (int 2 + 1) < 900"
    by (simp add: below_two ready_at_third_poll_def built_def)
  have h2: "\<forall>j. 30 * (int j + 1) < m \<longrightarrow>
           state (always_building j) \<notin> {''ready'', ''current'', ''error''}" for m
    by (simp add: always_building_def built_def)
  have s: "string_of_int 95 = ''95''" "string_of_int 30 = ''30''" by code_simp+
  have p: "polls_before_timeout 30 95 = 3" "polls_before_timeout 30 30 = 0"
    by (simp_all add: polls_before_timeout_def)
  from readiness_waiter_contract[of ready_at_third_poll 2 900 "''u''"] h1
    readiness_waiter_contract[of always_building 0 95 "''u''"] h2[of 95]
    readiness_waiter_contract[of always_building 0 30 "''u''"] h2[of 30]
  show ?thesis by (simp add: s p always_building_def built_def)
qed

text \<open>
  C7: with the single-attempt flag set, a first attempt that fails makes the prober
  reject with the value \<^verbatim>\<open>"not found"\<close> at once: one request has been issued, and
  nothing is logged and no sleep is taken after it.
\<close>

theorem single_attempt_fails_at_once:
  "0 < MAX_TIMEOUT \<and> probe_fails pages url (requests s)
   \<longrightarrow> waitForUrl pages url MAX_TIMEOUT True s =
         (Throws (Str ''not found''),
          s\<lparr>interceptors := interceptors s + 1, requests := requests s + 1,
            trace := trace s @ [AxiosGet url]\<rparr>)"
  using waitForUrl_single_attempt[of MAX_TIMEOUT pages url s] by simp

theorem single_attempt_fails_at_once_witness:
  "waitForUrl unreachable ''https://x'' 3 True fresh =
     (Throws (Str ''not found''),
      \<lparr>trace = [AxiosGet ''https://x''], requests = 1, interceptors = 1\<rparr>)"
proof -
  have h: "0 < (3::int) \<and> probe_fails unreachable ''https://x'' (requests fresh)"
    by (simp add: probe_fails_def unreachable_def)
  from single_attempt_fails_at_once[of 3 unreachable "''https://x''" fresh] h
  show ?thesis by (simp add: fresh_def)
qed


text \<open>
  C3: without the single-attempt flag, when all the attempts of the prober fail, as
  many as the budget divided by 3 and rounded up, the prober reports the timeout
  message with \<^verbatim>\<open>setFailed\<close> and returns normally: it does not reject. In the
  orchestrator the run then falls off the end of the \<^verbatim>\<open>try\<close> block: the
  \<^verbatim>\<open>catch\<close> block is not entered, and the only failure added is the prober's report.
\<close>

theorem exhausted_prober_reports_and_returns:
  "((\<forall>j < nat \<lceil>rat_of_int MAX_TIMEOUT / 3\<rceil>. probe_fails pages url (requests s + j))
    \<longrightarrow> waitForUrl pages url MAX_TIMEOUT False s =
         (Returned,
          s\<lparr>interceptors := interceptors s + 1,
            requests := requests s + nat \<lceil>rat_of_int MAX_TIMEOUT / 3\<rceil>,
            trace := trace s
              @ concat (replicate (nat \<lceil>rat_of_int MAX_TIMEOUT / 3\<rceil>)
                  [AxiosGet url, ConsoleLog (''URL '' @ url @ '' unavailable, retrying...''),
                   Sleep 3000])
              @ [SetFailed (''Timeout reached: Unable to connect to '' @ url)]\<rparr>))
   \<and> (settled (readied w c d) = Fulfilled ()
        \<and> (\<forall>j < nat \<lceil>rat_of_int (MAX_READY_TIMEOUT c) / 3\<rceil>.
              probe_fails (site_responses w) target (requests s0 + j))
    \<longrightarrow> fst (publish_and_wait w c d target s0) = Finished
        \<and> filter is_failure (trace (snd (publish_and_wait w c d target s0))) =
            filter is_failure (trace s0)
            @ [SetFailed (''Timeout reached: Unable to connect to '' @ target)])"
proof (intro conjI impI)
  assume "\<forall>j < nat \<lceil>rat_of_int MAX_TIMEOUT / 3\<rceil>. probe_fails pages url (requests s + j)"
  then show "waitForUrl pages url MAX_TIMEOUT False s =
         (Returned,
          s\<lparr>interceptors := interceptors s + 1,
            requests := requests s + nat \<lceil>rat_of_int MAX_TIMEOUT / 3\<rceil>,
            trace := trace s
              @ concat (replicate (nat \<lceil>rat_of_int MAX_TIMEOUT / 3\<rceil>)
                  [AxiosGet url, ConsoleLog (''URL '' @ url @ '' unavailable, retrying...''),
                   Sleep 3000])
              @ [SetFailed (''Timeout reached: Unable to connect to '' @ url)]\<rparr>)"
    using waitForUrl_exhausted[of MAX_TIMEOUT pages url s] by (simp add: retry_events_def)
next
  assume a: "settled (readied w c d) = Fulfilled ()
        \<and> (\<forall>j < nat \<lceil>rat_of_int (MAX_READY_TIMEOUT c) / 3\<rceil>.
              probe_fails (site_responses w) target (requests s0 + j))"
  note r = publish_and_wait_exhausted[of w c d target s0, OF a[THEN conjunct1] a[THEN conjunct2]]
  show "fst (publish_and_wait w c d target s0) = Finished"
    by (simp add: r)
  show "filter is_failure (trace (snd (publish_and_wait w c d target s0))) =
            filter is_failure (trace s0)
            @ [SetFailed (''Timeout reached: Unable to connect to '' @ target)]"
    by (simp add: r retries_report_no_failure readiness_reports_no_failure readied_def)
qed

theorem exhausted_prober_reports_and_returns_witness:
  "waitForUrl unreachable ''https://x'' 7 False fresh =
     (Returned,
      \<lparr>trace = [AxiosGet ''https://x'', ConsoleLog ''URL https://x unavailable, retrying...'', Sleep 3000,
                AxiosGet ''https://x'', ConsoleLog ''URL https://x unavailable, retrying...'', Sleep 3000,
                AxiosGet ''https://x'', ConsoleLog ''URL https://x unavailable, retrying...'', Sleep 3000,
                SetFailed ''Timeout reached: Unable to connect to https://x''],
       requests = 3, interceptors = 1\<rparr>)
   \<and> fst (publish_and_wait (world_of built unreachable) push_inputs built ''https://x'' fresh)
       = Finished
   \<and> filter is_failure
        (trace (snd (publish_and_wait (world_of built unreachable) push_inputs built ''https://x'' fresh)))
       = [SetFailed ''Timeout reached: Unable to connect to https://x'']"
proof -
  have h: "\<forall>j < nat \<lceil>rat_of_int 7 / 3\<rceil>. probe_fails unreachable ''https://x'' (requests fresh + j)"
    by (simp add: ceil_7_3 below_three probe_fails_def unreachable_def)
  have g: "settled (readied (world_of built unreachable) push_inputs built) = Fulfilled ()
        \<and> (\<forall>j < nat \<lceil>rat_of_int (MAX_READY_TIMEOUT push_inputs) / 3\<rceil>.
              probe_fails (site_responses (world_of built unreachable)) ''https://x''
                (requests fresh + j))"
    by (simp add: ready_in_scenario) (simp add: probe_fails_def unreachable_def world_of_def)
  note t = exhausted_prober_reports_and_returns[of 7 unreachable "''https://x''" fresh
      "world_of built unreachable" push_inputs built "''https://x''" fresh]
  have 1: "waitForUrl unreachable ''https://x'' 7 False fresh =
     (Returned,
      \<lparr>trace = [AxiosGet ''https://x'', ConsoleLog ''URL https://x unavailable, retrying...'', Sleep 3000,
                AxiosGet ''https://x'', ConsoleLog ''URL https://x unavailable, retrying...'', Sleep 3000,
                AxiosGet ''https://x'', ConsoleLog ''URL https://x unavailable, retrying...'', Sleep 3000,
                SetFailed ''Timeout reached: Unable to connect to https://x''],
       requests = 3, interceptors = 1\<rparr>)"
    using t[THEN conjunct1, THEN mp, OF h] by (simp add: ceil_7_3 fresh_def numeral_3_eq_3)
  note u = t[THEN conjunct2, THEN mp, OF g]
  have 3: "filter is_failure
        (trace (snd (publish_and_wait (world_of built unreachable) push_inputs built ''https://x'' fresh)))
       = [SetFailed ''Timeout reached: Unable to connect to https://x'']"
    using u[THEN conjunct2] by (simp add: fresh_def)
  show ?thesis by (intro conjI) (rule 1 u[THEN conjunct1] 3)+
qed

text \<open>
  C6: on every request of the prober, a failure that carries the status 401 is turned
  into a successful response before the prober branches on success or failure, and
  every other failure reaches the failure branch unchanged.

  The first half holds (\<open>interceptor_401\<close>), and a failure that carries a response with
  another status is passed on as it is (\<open>interceptor_other_status\<close>). A failure that
  carries no response is not: the handler reads \<^verbatim>\<open>error.response.status\<close> of an
  undefined response, and what reaches the \<^verbatim>\<open>catch\<close> of the prober is the TypeError
  raised there, not the error of the request. The attempt still counts as failed.
\<close>

theorem error_without_response_is_replaced:
  "unreachable 0 ''https://main--docs.netlify.app'' = Rejects (AxiosError None)
   \<and> fst (axios_get unreachable ''https://main--docs.netlify.app''
        \<lparr>trace = [], requests = 0, interceptors = 1\<rparr>) = Rejects TypeError
   \<and> fst (waitForUrl unreachable ''https://main--docs.netlify.app'' 3 True fresh)
       = Throws (Str ''not found'')"
  by code_simp

section \<open>Properties of the orchestrator\<close>

text \<open>
  C8: when the deployment found for the commit is in state error, its error message
  matches the phrase "canceled build due to no content change" in any letter case, and
  the single probe of its fallback URL fails, the run sets the output nopreview to 1,
  has issued exactly one plain request, to the fallback URL, never requests the
  single-deployment endpoint nor starts the readiness timer, and ends by its
  \<^verbatim>\<open>return\<close>: the branch reports no failure, so the failures of the run are those of
  the configuration check at its start, none when the configuration is complete.
\<close>

theorem no_preview_path:
  "settled (created w c) = Fulfilled d \<and> state d = ''error''
     \<and> matcher_test (error_message d)
     \<and> probe_fails (site_responses w) (deploy_ssl_url d) 0
   \<longrightarrow> run w c =
         (Skipped,
          \<lparr>trace = check_configuration c
             @ ConsoleLog (''Waiting for Netlify to create a deployment for git SHA ''
                 @ commitSha_of c)
             # log (created w c)
             @ [AxiosGet (deploy_ssl_url d),
                Notice ''Skipping: no deployment available for this branch'',
                Info (''No deployment available: '' @ template (error_message d)),
                SetOutput ''nopreview'' (JNum 1)],
           requests = 1, interceptors = 1\<rparr>)
       \<and> filter is_output (trace (snd (run w c))) = [SetOutput ''nopreview'' (JNum 1)]
       \<and> filter is_probe (trace (snd (run w c))) = [AxiosGet (deploy_ssl_url d)]
       \<and> NetlifyGet (deploy_url (site_id c) (deploy_id d)) \<notin> set (trace (snd (run w c)))
       \<and> SetInterval 30000 \<notin> set (trace (snd (run w c)))
       \<and> filter is_failure (trace (snd (run w c))) = check_configuration c
       \<and> (check_configuration c = [] \<longrightarrow> (\<forall>m. SetFailed m \<notin> set (trace (snd (run w c)))))"
proof (intro impI)
  assume a: "settled (created w c) = Fulfilled d \<and> state d = ''error''
     \<and> matcher_test (error_message d)
     \<and> probe_fails (site_responses w) (deploy_ssl_url d) 0"
  have probe: "waitForUrl (site_responses w) (deploy_ssl_url d) 3 True
           \<lparr>trace = t, requests = 0, interceptors = 0\<rparr> =
         (Throws (Str ''not found''),
          \<lparr>trace = t @ [AxiosGet (deploy_ssl_url d)], requests = 1, interceptors = 1\<rparr>)" for t
    using a waitForUrl_single_attempt[of 3 "site_responses w" "deploy_ssl_url d"
        "\<lparr>trace = t, requests = 0, interceptors = 0\<rparr>"]
    by simp
  have r: "run w c =
         (Skipped,
          \<lparr>trace = check_configuration c
             @ ConsoleLog (''Waiting for Netlify to create a deployment for git SHA ''
                 @ commitSha_of c)
             # log (created w c)
             @ [AxiosGet (deploy_ssl_url d),
                Notice ''Skipping: no deployment available for this branch'',
                Info (''No deployment available: '' @ template (error_message d)),
                SetOutput ''nopreview'' (JNum 1)],
           requests = 1, interceptors = 1\<rparr>)"
    using a by (simp add: run_def Let_def created_def[symmetric] say_def probe)
  have ev: "set (log (created w c)) \<subseteq> creation_events (listing_url (site_id c))"
    unfolding created_def by (rule creation_log_events)
  have fails: "filter is_failure (trace (snd (run w c))) = check_configuration c"
    by (simp add: r quiet_creation[OF ev] quiet_configuration)
  have nofail: "\<forall>m. SetFailed m \<notin> set (trace (snd (run w c)))" if "check_configuration c = []"
  proof
    fix m
    have "SetFailed m \<notin> set (filter is_failure (trace (snd (run w c))))"
      unfolding fails using that by simp
    then show "SetFailed m \<notin> set (trace (snd (run w c)))" by simp
  qed
  show "run w c =
         (Skipped,
          \<lparr>trace = check_configuration c
             @ ConsoleLog (''Waiting for Netlify to create a deployment for git SHA ''
                 @ commitSha_of c)
             # log (created w c)
             @ [AxiosGet (deploy_ssl_url d),
                Notice ''Skipping: no deployment available for this branch'',
                Info (''No deployment available: '' @ template (error_message d)),
                SetOutput ''nopreview'' (JNum 1)],
           requests = 1, interceptors = 1\<rparr>)
       \<and> filter is_output (trace (snd (run w c))) = [SetOutput ''nopreview'' (JNum 1)]
       \<and> filter is_probe (trace (snd (run w c))) = [AxiosGet (deploy_ssl_url d)]
       \<and> NetlifyGet (deploy_url (site_id c) (deploy_id d)) \<notin> set (trace (snd (run w c)))
       \<and> SetInterval 30000 \<notin> set (trace (snd (run w c)))
       \<and> filter is_failure (trace (snd (run w c))) = check_configuration c
       \<and> (check_configuration c = [] \<longrightarrow> (\<forall>m. SetFailed m \<notin> set (trace (snd (run w c)))))"
    using nofail fails
    by (simp add: r quiet_creation[OF ev] quiet_configuration
          creation_never_polls_deployment[OF ev] configuration_never_polls)
qed

theorem no_preview_path_witness:
  "fst (run (world_of skipped_build unreachable) push_inputs) = Skipped
   \<and> filter is_output (trace (snd (run (world_of skipped_build unreachable) push_inputs)))
       = [SetOutput ''nopreview'' (JNum 1)]
   \<and> filter is_probe (trace (snd (run (world_of skipped_build unreachable) push_inputs)))
       = [AxiosGet ''https://main--docs.netlify.app'']
   \<and> filter is_failure (trace (snd (run (world_of skipped_build unreachable) push_inputs))) = []
   \<and> requests (snd (run (world_of skipped_build unreachable) push_inputs)) = 1"
proof -
  have h: "settled (created (world_of skipped_build unreachable) push_inputs) = Fulfilled skipped_build
     \<and> state skipped_build = ''error''
     \<and> matcher_test (error_message skipped_build)
     \<and> probe_fails (site_responses (world_of skipped_build unreachable))
          (deploy_ssl_url skipped_build) 0"
    by (simp add: created_skipped skip_phrase)
       (simp add: skipped_build_def built_def world_of_def probe_fails_def unreachable_def)
  have c: "check_configuration push_inputs = []"
    by (simp add: check_configuration_def push_inputs_def commitSha_of_def)
  note big = no_preview_path[of "world_of skipped_build unreachable" push_inputs skipped_build,
      THEN mp, OF h]
  have url: "deploy_ssl_url skipped_build = ''https://main--docs.netlify.app''"
    by (simp add: skipped_build_def built_def)
  have 1: "fst (run (world_of skipped_build unreachable) push_inputs) = Skipped"
    and 5: "requests (snd (run (world_of skipped_build unreachable) push_inputs)) = 1"
    by (simp_all add: big[THEN conjunct1])
  note 2 = big[THEN conjunct2, THEN conjunct1]
  note 3 = big[THEN conjunct2, THEN conjunct2, THEN conjunct1, unfolded url]
  note 4 = big[THEN conjunct2, THEN conjunct2, THEN conjunct2, THEN conjunct2, THEN conjunct2,
      THEN conjunct1, unfolded c]
  show ?thesis by (intro conjI) (rule 1 2 3 4 5)+
qed

text \<open>
  C9: when the deployment found for the commit is in state error and its error message
  does not match the no-content-change phrase, the run ends in the top-level
  \<^verbatim>\<open>catch\<close>, and the failure it reports there, the last event of the run, is exactly
  the deployment's error message.
\<close>

theorem deployment_error_is_fatal:
  "settled (created w c) = Fulfilled d \<and> state d = ''error'' \<and> error_message d = Some m
     \<and> \<not> matcher_test (Some m)
   \<longrightarrow> run w c =
         (Caught,
          \<lparr>trace = check_configuration c
             @ ConsoleLog (''Waiting for Netlify to create a deployment for git SHA ''
                 @ commitSha_of c)
             # log (created w c) @ [SetFailed m],
           requests = 0, interceptors = 0\<rparr>)
       \<and> filter is_failure (trace (snd (run w c))) = check_configuration c @ [SetFailed m]"
proof (intro impI)
  assume a: "settled (created w c) = Fulfilled d \<and> state d = ''error'' \<and> error_message d = Some m
     \<and> \<not> matcher_test (Some m)"
  have r: "run w c =
         (Caught,
          \<lparr>trace = check_configuration c
             @ ConsoleLog (''Waiting for Netlify to create a deployment for git SHA ''
                 @ commitSha_of c)
             # log (created w c) @ [SetFailed m],
           requests = 0, interceptors = 0\<rparr>)"
    using a
    by (simp add: run_def Let_def created_def[symmetric] say_def catch_def new_Error_def
          message_of_def)
  have ev: "set (log (created w c)) \<subseteq> creation_events (listing_url (site_id c))"
    unfolding created_def by (rule creation_log_events)
  show "run w c =
         (Caught,
          \<lparr>trace = check_configuration c
             @ ConsoleLog (''Waiting for Netlify to create a deployment for git SHA ''
                 @ commitSha_of c)
             # log (created w c) @ [SetFailed m],
           requests = 0, interceptors = 0\<rparr>)
       \<and> filter is_failure (trace (snd (run w c))) = check_configuration c @ [SetFailed m]"
    by (simp add: r quiet_creation[OF ev] quiet_configuration)
qed

theorem deployment_error_is_fatal_witness:
  "fst (run (world_of failed_build reachable) push_inputs) = Caught
   \<and> filter is_failure (trace (snd (run (world_of failed_build reachable) push_inputs)))
       = [SetFailed ''build script failed'']"
proof -
  have h: "settled (created (world_of failed_build reachable) push_inputs) = Fulfilled failed_build
     \<and> state failed_build = ''error'' \<and> error_message failed_build = Some ''build script failed''
     \<and> \<not> matcher_test (Some ''build script failed'')"
    by (simp add: created_failed not_skip_phrase) (simp add: failed_build_def built_def)
  have c: "check_configuration push_inputs = []"
    by (simp add: check_configuration_def push_inputs_def commitSha_of_def)
  note big = deployment_error_is_fatal[of "world_of failed_build reachable" push_inputs
      failed_build "''build script failed''", THEN mp, OF h]
  have 1: "fst (run (world_of failed_build reachable) push_inputs) = Caught"
    by (simp add: big[THEN conjunct1])
  have 2: "filter is_failure (trace (snd (run (world_of failed_build reachable) push_inputs)))
       = [SetFailed ''build script failed'']"
    using big[THEN conjunct2] by (simp only: c append_Nil)
  show ?thesis by (intro conjI) (rule 1 2)+
qed


text \<open>
  C2: in the no-content-change branch (state error, message matching the phrase), when
  the single probe of the fallback URL succeeds, the run finishes without ever invoking
  the readiness waiter for that deployment.

  The code does otherwise. In the scenario below the probe succeeds and the run then
  starts the 30-second timer of the readiness waiter and requests the single-deployment
  endpoint.
\<close>

theorem fallback_success_reaches_readiness_waiter:
  "settled (created (world_of skipped_build reachable) push_inputs) = Fulfilled skipped_build
   \<and> state skipped_build = ''error''
   \<and> matcher_test (error_message skipped_build)
   \<and> \<not> probe_fails (site_responses (world_of skipped_build reachable))
          (deploy_ssl_url skipped_build) 0
   \<and> SetInterval 30000 \<in> set (trace (snd (run (world_of skipped_build reachable) push_inputs)))
   \<and> NetlifyGet (deploy_url (site_id push_inputs) (deploy_id skipped_build))
        \<in> set (trace (snd (run (world_of skipped_build reachable) push_inputs)))
   \<and> fst (run (world_of skipped_build reachable) push_inputs) = Finished"
  by code_simp

text \<open>
  C2, as the code has it: in the no-content-change branch, when the single probe of the
  fallback URL succeeds, the run does not leave by the no-preview \<^verbatim>\<open>return\<close>; it goes
  on with the fallback URL as its URL: it publishes the outputs deploy_id and url (the
  fallback URL), and then invokes the readiness waiter for that deployment, which
  starts its timer and requests the single-deployment endpoint.
\<close>

theorem fallback_success_continues_to_readiness:
  "settled (created w c) = Fulfilled d \<and> state d = ''error''
     \<and> matcher_test (error_message d)
     \<and> \<not> probe_fails (site_responses w) (deploy_ssl_url d) 0
   \<longrightarrow> (\<exists>rest. trace (snd (run w c)) =
           check_configuration c
           @ ConsoleLog (''Waiting for Netlify to create a deployment for git SHA ''
               @ commitSha_of c)
           # log (created w c)
           @ [AxiosGet (deploy_ssl_url d),
              SetOutput ''deploy_id'' (JStr (deploy_id d)),
              SetOutput ''url'' (JStr (deploy_ssl_url d)),
              ConsoleLog (''Waiting for Netlify deployment '' @ deploy_id d @ '' in site ''
                @ name d @ '' to be ready''),
              SetInterval 30000,
              NetlifyGet (deploy_url (site_id c) (deploy_id d))]
           @ rest)
       \<and> fst (run w c) \<noteq> Skipped"
  (is "?found \<longrightarrow> ?continues")
proof (intro impI)
  assume a: "settled (created w c) = Fulfilled d \<and> state d = ''error''
     \<and> matcher_test (error_message d)
     \<and> \<not> probe_fails (site_responses w) (deploy_ssl_url d) 0"
  let ?pre = "check_configuration c
           @ ConsoleLog (''Waiting for Netlify to create a deployment for git SHA ''
               @ commitSha_of c)
           # log (created w c)"
  let ?s3 = "\<lparr>trace = ?pre @ [AxiosGet (deploy_ssl_url d)], requests = 1, interceptors = 1\<rparr>"
  have probe: "waitForUrl (site_responses w) (deploy_ssl_url d) 3 True
           \<lparr>trace = t, requests = 0, interceptors = 0\<rparr> =
         (Returned,
          \<lparr>trace = t @ [AxiosGet (deploy_ssl_url d)], requests = 1, interceptors = 1\<rparr>)" for t
    using a waitForUrl_success[of 3 "site_responses w" "deploy_ssl_url d"
        "\<lparr>trace = t, requests = 0, interceptors = 0\<rparr>" True]
    by simp
  have r: "run w c = publish_and_wait w c d (deploy_ssl_url d) ?s3"
    using a by (simp add: run_def Let_def created_def[symmetric] say_def probe)
  obtain rest where rest: "trace (snd (publish_and_wait w c d (deploy_ssl_url d) ?s3)) =
     trace ?s3
     @ [SetOutput ''deploy_id'' (JStr (deploy_id d)), SetOutput ''url'' (JStr (deploy_ssl_url d)),
        ConsoleLog (''Waiting for Netlify deployment '' @ deploy_id d @ '' in site '' @ name d
          @ '' to be ready'')]
     @ log (readied w c d) @ rest"
    and live: "fst (publish_and_wait w c d (deploy_ssl_url d) ?s3) \<noteq> Skipped"
    using publish_and_wait_trace[of w c d "deploy_ssl_url d" ?s3] by blast
  obtain polls where polls: "log (readied w c d) =
      SetInterval 30000 # NetlifyGet (deploy_url (site_id c) (deploy_id d)) # polls"
    unfolding readied_def
    using readiness_first_poll[of MAX_WAIT_TIMEOUT "deploy_responses w"
        "deploy_url (site_id c) (deploy_id d)"]
    by (auto simp: MAX_WAIT_TIMEOUT_def)
  have "trace (snd (run w c)) =
           ?pre
           @ [AxiosGet (deploy_ssl_url d),
              SetOutput ''deploy_id'' (JStr (deploy_id d)),
              SetOutput ''url'' (JStr (deploy_ssl_url d)),
              ConsoleLog (''Waiting for Netlify deployment '' @ deploy_id d @ '' in site ''
                @ name d @ '' to be ready''),
              SetInterval 30000,
              NetlifyGet (deploy_url (site_id c) (deploy_id d))]
           @ (polls @ rest)"
    unfolding r rest polls by simp
  then have "\<exists>rest. trace (snd (run w c)) =
           check_configuration c
           @ ConsoleLog (''Waiting for Netlify to create a deployment for git SHA ''
               @ commitSha_of c)
           # log (created w c)
           @ [AxiosGet (deploy_ssl_url d),
              SetOutput ''deploy_id'' (JStr (deploy_id d)),
              SetOutput ''url'' (JStr (deploy_ssl_url d)),
              ConsoleLog (''Waiting for Netlify deployment '' @ deploy_id d @ '' in site ''
                @ name d @ '' to be ready''),
              SetInterval 30000,
              NetlifyGet (deploy_url (site_id c) (deploy_id d))]
           @ rest"
    by (intro exI[of _ "polls @ rest"]) simp
  moreover have "fst (run w c) \<noteq> Skipped"
    using live unfolding r .
  ultimately show ?continues by blast
qed

theorem fallback_success_continues_to_readiness_witness:
  "SetInterval 30000 \<in> set (trace (snd (run (world_of skipped_build reachable) push_inputs)))
   \<and> NetlifyGet (deploy_url (site_id push_inputs) (deploy_id skipped_build))
        \<in> set (trace (snd (run (world_of skipped_build reachable) push_inputs)))
   \<and> SetOutput ''url'' (JStr (deploy_ssl_url skipped_build))
        \<in> set (trace (snd (run (world_of skipped_build reachable) push_inputs)))
   \<and> fst (run (world_of skipped_build reachable) push_inputs) \<noteq> Skipped"
proof -
  have h: "settled (created (world_of skipped_build reachable) push_inputs) = Fulfilled skipped_build
     \<and> state skipped_build = ''error''
     \<and> matcher_test (error_message skipped_build)
     \<and> \<not> probe_fails (site_responses (world_of skipped_build reachable))
          (deploy_ssl_url skipped_build) 0"
    by (simp add: created_skipped skip_phrase)
       (simp add: skipped_build_def built_def world_of_def probe_fails_def reachable_def
          onFulfilled_def)
  note big = fallback_success_continues_to_readiness[of "world_of skipped_build reachable"
      push_inputs skipped_build, THEN mp, OF h]
  from big[THEN conjunct1] obtain rest where
    t: "trace (snd (run (world_of skipped_build reachable) push_inputs)) =
           check_configuration push_inputs
           @ ConsoleLog (''Waiting for Netlify to create a deployment for git SHA ''
               @ commitSha_of push_inputs)
           # log (created (world_of skipped_build reachable) push_inputs)
           @ [AxiosGet (deploy_ssl_url skipped_build),
              SetOutput ''deploy_id'' (JStr (deploy_id skipped_build)),
              SetOutput ''url'' (JStr (deploy_ssl_url skipped_build)),
              ConsoleLog (''Waiting for Netlify deployment '' @ deploy_id skipped_build
                @ '' in site '' @ name skipped_build @ '' to be ready''),
              SetInterval 30000,
              NetlifyGet (deploy_url (site_id push_inputs) (deploy_id skipped_build))]
           @ rest"
    by blast
  have 1: "SetInterval 30000
      \<in> set (trace (snd (run (world_of skipped_build reachable) push_inputs)))"
    and 2: "NetlifyGet (deploy_url (site_id push_inputs) (deploy_id skipped_build))
        \<in> set (trace (snd (run (world_of skipped_build reachable) push_inputs)))"
    and 3: "SetOutput ''url'' (JStr (deploy_ssl_url skipped_build))
        \<in> set (trace (snd (run (world_of skipped_build reachable) push_inputs)))"
    unfolding t by simp_all
  show ?thesis by (intro conjI) (rule 1 2 3 big[THEN conjunct2])+
qed

text \<open>
  C10: the no-preview path is the one on which the deployment found for the commit is
  in state error, its error message matches the no-content-change phrase, and the single
  probe of its fallback URL fails. On that path the run leaves by the no-preview
  \<^verbatim>\<open>return\<close> and has published the output nopreview, with the value 1, and no other
  output: deploy_id and url are not published. On every other path, whatever the
  environment answers, the run does not leave by that \<^verbatim>\<open>return\<close> and never
  publishes nopreview.
\<close>

theorem nopreview_exactly_on_failed_fallback:
  "((\<exists>d. settled (created w c) = Fulfilled d \<and> state d = ''error''
         \<and> matcher_test (error_message d)
         \<and> probe_fails (site_responses w) (deploy_ssl_url d) 0)
    \<longrightarrow> fst (run w c) = Skipped
        \<and> filter is_output (trace (snd (run w c))) = [SetOutput ''nopreview'' (JNum 1)])
   \<and> (\<not> (\<exists>d. settled (created w c) = Fulfilled d \<and> state d = ''error''
         \<and> matcher_test (error_message d)
         \<and> probe_fails (site_responses w) (deploy_ssl_url d) 0)
    \<longrightarrow> fst (run w c) \<noteq> Skipped
        \<and> (\<forall>v. SetOutput ''nopreview'' v \<notin> set (trace (snd (run w c)))))"
proof -
  define published where "published = filter is_output (trace (snd (run w c)))"
  have absent: "\<forall>v. SetOutput ''nopreview'' v \<notin> set (trace (snd (run w c)))"
    if shape: "published = [] \<or> (\<exists>i u. published = [SetOutput ''deploy_id'' i, SetOutput ''url'' u])"
  proof (intro allI notI)
    fix v
    assume "SetOutput ''nopreview'' v \<in> set (trace (snd (run w c)))"
    then have "SetOutput ''nopreview'' v \<in> set published"
      by (simp add: published_def)
    with shape show False by auto
  qed
  from run_outputs_by_exit[of w c] absent skipped_iff_fallback_probe_failed[of w c]
  show ?thesis unfolding published_def by blast
qed

theorem nopreview_exactly_on_failed_fallback_witness:
  "fst (run (world_of skipped_build unreachable) push_inputs) = Skipped
   \<and> filter is_output (trace (snd (run (world_of skipped_build unreachable) push_inputs)))
     = [SetOutput ''nopreview'' (JNum 1)]
   \<and> fst (run (world_of skipped_build reachable) push_inputs) \<noteq> Skipped
   \<and> SetOutput ''nopreview'' (JNum 1)
       \<notin> set (trace (snd (run (world_of skipped_build reachable) push_inputs)))
   \<and> fst (run (world_of failed_build unreachable) push_inputs) \<noteq> Skipped
   \<and> SetOutput ''nopreview'' (JNum 1)
       \<notin> set (trace (snd (run (world_of failed_build unreachable) push_inputs)))"
proof -
  have e1: "\<exists>d. settled (created (world_of skipped_build unreachable) push_inputs) = Fulfilled d
         \<and> state d = ''error'' \<and> matcher_test (error_message d)
         \<and> probe_fails (site_responses (world_of skipped_build unreachable)) (deploy_ssl_url d) 0"
    by (rule exI[of _ skipped_build], simp add: created_skipped skip_phrase)
       (simp add: skipped_build_def built_def world_of_def probe_fails_def unreachable_def)
  have e2: "\<not> (\<exists>d. settled (created (world_of skipped_build reachable) push_inputs) = Fulfilled d
         \<and> state d = ''error'' \<and> matcher_test (error_message d)
         \<and> probe_fails (site_responses (world_of skipped_build reachable)) (deploy_ssl_url d) 0)"
    by (simp add: created_skipped)
       (simp add: world_of_def probe_fails_def reachable_def onFulfilled_def)
  have m: "error_message failed_build = Some ''build script failed''"
    by (simp add: failed_build_def built_def)
  have e3: "\<not> (\<exists>d. settled (created (world_of failed_build unreachable) push_inputs) = Fulfilled d
         \<and> state d = ''error'' \<and> matcher_test (error_message d)
         \<and> probe_fails (site_responses (world_of failed_build unreachable)) (deploy_ssl_url d) 0)"
    by (simp add: created_failed m not_skip_phrase)
  note a = nopreview_exactly_on_failed_fallback[of "world_of skipped_build unreachable"
      push_inputs, THEN conjunct1, THEN mp, OF e1]
  note b = nopreview_exactly_on_failed_fallback[of "world_of skipped_build reachable"
      push_inputs, THEN conjunct2, THEN mp, OF e2]
  note c = nopreview_exactly_on_failed_fallback[of "world_of failed_build unreachable"
      push_inputs, THEN conjunct2, THEN mp, OF e3]
  show ?thesis
    by (intro conjI)
       (rule a[THEN conjunct1] a[THEN conjunct2] b[THEN conjunct1]
          b[THEN conjunct2, THEN spec, of "JNum 1"] c[THEN conjunct1]
          c[THEN conjunct2, THEN spec, of "JNum 1"])+
qed

end
